theory Spec2Isabelle
  imports Complex_Main
begin

section \<open>Data model\<close>

text \<open>
  The collections of the backend, as the Mongoose schemas declare them
  (\<^verbatim>\<open>models/Meeting.js\<close>, \<^verbatim>\<open>models/Attendance.js\<close>). An ObjectId is a natural number, a
  \<^verbatim>\<open>Date\<close> is its \<^verbatim>\<open>getTime()\<close> value: whole milliseconds since the epoch. The timestamps
  Mongoose maintains by itself (\<^verbatim>\<open>createdAt\<close>, \<^verbatim>\<open>updatedAt\<close>) are not part of the model.
\<close>

type_synonym oid = nat
type_synonym instant = int

text \<open>
  A JavaScript string that a request brings or a document stores, as its UTF-16 code units.
  The tokens the services draw are hexadecimal text: \<open>code_units\<close> gives the code units of
  such ASCII text.
\<close>

type_synonym js_string = "nat list"

definition code_units :: "string \<Rightarrow> js_string" where
  "code_units t = map of_char t"

datatype meeting_type = Offline | Online

datatype participation_kind = Anyone | Selected

text \<open>
  The object that \<^verbatim>\<open>JSON.stringify\<close> serialises into \<^verbatim>\<open>qrData\<close>. The field \<^verbatim>\<open>qrData\<close> of a
  meeting is either the empty string (\<open>None\<close>) or such a serialised object; \<^verbatim>\<open>qrCode\<close> is either
  the empty string (\<open>None\<close>) or the data URL of the image that encodes the payload.
\<close>

record QrPayload =
  meetingId :: oid
  token :: string
  generatedAt :: instant

record Geofencing =
  enabled :: bool
  center_lat :: real
  center_lng :: real
  radius :: real

record Meeting =
  m_id :: oid
  title :: string
  description :: string
  mtype :: meeting_type
  dateTime :: instant
  duration :: int
  location :: string
  meetingLink :: string
  qrCode :: "QrPayload option"
  qrData :: "QrPayload option"
  attendanceToken :: js_string
  createdBy :: oid
  isActive :: bool
  qrPaused :: bool
  participation :: participation_kind
  participants :: "oid list"
  geofencing :: Geofencing

datatype attendance_method = Qr | Link

record Location =
  lat :: real
  lng :: real
  accuracy :: "real option"

record Attendance =
  meeting :: oid
  user :: oid
  att_method :: attendance_method
  markedAt :: instant
  att_location :: "Location option"

text \<open>
  The state the core works on: the two collections in their natural order, the users by their
  Firebase uid, and the module variable \<^verbatim>\<open>lastRefreshedAt\<close> of \<^verbatim>\<open>qrRefreshService.js\<close>
  (\<open>None\<close> is \<^verbatim>\<open>null\<close>).
\<close>

record system =
  meetings :: "Meeting list"
  attendances :: "Attendance list"
  users :: "string \<Rightarrow> oid option"
  lastRefreshedAt :: "instant option"

subsection \<open>Store operations\<close>

definition findById :: "oid \<Rightarrow> Meeting list \<Rightarrow> Meeting option" where
  "findById i ms = find (\<lambda>m. m_id m = i) ms"

text \<open>\<^verbatim>\<open>findByIdAndUpdate\<close> sets fields of the first document with the id; none: no write.\<close>

fun findByIdAndUpdate :: "oid \<Rightarrow> (Meeting \<Rightarrow> Meeting) \<Rightarrow> Meeting list \<Rightarrow> Meeting list" where
  "findByIdAndUpdate i f [] = []"
| "findByIdAndUpdate i f (m # ms) =
     (if m_id m = i then f m # ms else m # findByIdAndUpdate i f ms)"

text \<open>
  The unique index \<^verbatim>\<open>{ meeting: 1, user: 1 }\<close> of the attendance collection:
  \<^verbatim>\<open>Attendance.create\<close> fails with the duplicate key error (code 11000) when a document with
  the pair exists, and with some other error when the store fails.
\<close>

definition same_pair :: "oid \<Rightarrow> oid \<Rightarrow> Attendance \<Rightarrow> bool" where
  "same_pair E S a = (meeting a = E \<and> user a = S)"

definition findOne_attendance :: "oid \<Rightarrow> oid \<Rightarrow> Attendance list \<Rightarrow> Attendance option" where
  "findOne_attendance E S atts = find (same_pair E S) atts"

datatype create_result = Created "Attendance list" | DuplicateKey | StoreError

definition Attendance_create :: "bool \<Rightarrow> Attendance list \<Rightarrow> Attendance \<Rightarrow> create_result" where
  "Attendance_create fault atts r =
     (if fault then StoreError
      else if findOne_attendance (meeting r) (user r) atts \<noteq> None then DuplicateKey
      else Created (atts @ [r]))"

definition unique_index :: "Attendance list \<Rightarrow> bool" where
  "unique_index atts = distinct (map (\<lambda>a. (meeting a, user a)) atts)"

section \<open>Token rotation service (\<^verbatim>\<open>services/qrRefreshService.js\<close>)\<close>

definition QR_REFRESH_INTERVAL :: int where
  "QR_REFRESH_INTERVAL = 20"

definition getSecondsUntilNextRefresh :: "instant option \<Rightarrow> instant \<Rightarrow> int" where
  "getSecondsUntilNextRefresh lastRef now =
     (case lastRef of
        None \<Rightarrow> 0
      | Some l \<Rightarrow>
          (let elapsed = real_of_int (now - l) / 1000;
               remaining = max 0 \<lceil>real_of_int QR_REFRESH_INTERVAL - elapsed\<rceil>
           in remaining))"

text \<open>
  What a tick of a background service depends on besides the state: the clock, the random
  token drawn for a meeting (\<^verbatim>\<open>crypto.randomBytes\<close>), whether the work on a meeting throws
  (the QR encoder or the write to the store fails), and whether a query of the tick throws.
\<close>

record tick_env =
  tick_now :: instant
  randomBytes :: "oid \<Rightarrow> string"
  throws :: "oid \<Rightarrow> bool"
  findThrows :: bool
  findActiveThrows :: bool

datatype log_entry =
    RefreshFailed oid
  | Refreshed nat
  | RefreshServiceError
  | TokenGenerated oid
  | Activated oid
  | Deactivated oid
  | ActivationServiceError

text \<open>
  The body of the \<^verbatim>\<open>meetings.map(async ...)\<close> callback: its own \<^verbatim>\<open>try/catch\<close> logs a
  failure and lets the other updates go on. Each update writes one document, so running the
  callbacks in the order of the list is one of the orders \<^verbatim>\<open>Promise.all\<close> allows.
\<close>

definition refresh_one :: "tick_env \<Rightarrow> Meeting list \<times> log_entry list \<Rightarrow> oid \<Rightarrow>
    Meeting list \<times> log_entry list" where
  "refresh_one e st i =
     (if throws e i then (fst st, snd st @ [RefreshFailed i])
      else
        (let qrPayload = \<lparr>meetingId = i, token = randomBytes e i, generatedAt = tick_now e\<rparr>
         in (findByIdAndUpdate i (\<lambda>m. m\<lparr>qrCode := Some qrPayload, qrData := Some qrPayload\<rparr>)
               (fst st), snd st)))"

definition refreshQRCodes :: "tick_env \<Rightarrow> system \<Rightarrow> system \<times> log_entry list" where
  "refreshQRCodes e s =
     (if findThrows e then (s, [RefreshServiceError])
      else
        (let selected = map m_id (filter (\<lambda>m. qrCode m \<noteq> None \<and> \<not> qrPaused m) (meetings s));
             s1 = s\<lparr>lastRefreshedAt := Some (tick_now e)\<rparr>
         in if selected = [] then (s1, [])
            else
              (let st = foldl (refresh_one e) (meetings s, []) selected
               in (s1\<lparr>meetings := fst st\<rparr>, snd st @ [Refreshed (length selected)]))))"

section \<open>Status query and pause toggle (meeting controller)\<close>

datatype error_code =
    BadRequest | NotFound | ExpiredQR | TooEarly | MeetingEnded | Forbidden
  | LocationRequired | OutOfRange | InternalError

record qr_status =
  st_qrCode :: "QrPayload option"
  st_qrData :: "QrPayload option"
  st_isActive :: bool
  st_qrPaused :: bool
  secondsRemaining :: int
  refreshInterval :: int

text \<open>
  A request names a document by a string: \<open>NoId\<close> is an absent or empty one, \<open>BadId\<close> one that
  is no ObjectId (Mongoose throws \<^verbatim>\<open>CastError\<close>), \<open>GoodId i\<close> a well-formed one.
\<close>

datatype id_input = NoId | BadId | GoodId oid

text \<open>\<^verbatim>\<open>getQRStatus\<close> reads the meeting and the countdown; it returns no new state.\<close>

definition getQRStatus :: "instant \<Rightarrow> bool \<Rightarrow> system \<Rightarrow> id_input \<Rightarrow> (nat \<times> error_code) + qr_status" where
  "getQRStatus now dbFault s rid =
     (case rid of
        GoodId i \<Rightarrow>
          (if dbFault then Inl (500, InternalError)
           else
             (case findById i (meetings s) of
                None \<Rightarrow> Inl (404, NotFound)
              | Some m \<Rightarrow>
                  Inr \<lparr>st_qrCode = qrCode m, st_qrData = qrData m, st_isActive = isActive m,
                       st_qrPaused = qrPaused m,
                       secondsRemaining = getSecondsUntilNextRefresh (lastRefreshedAt s) now,
                       refreshInterval = QR_REFRESH_INTERVAL\<rparr>))
      | _ \<Rightarrow> Inl (400, BadRequest))"

text \<open>
  \<^verbatim>\<open>toggleQRPause\<close>: \<^verbatim>\<open>meeting.qrPaused = !meeting.qrPaused; await meeting.save()\<close>. The
  answer is the new flag. \<open>dbFault\<close>: the read or the save throws.
\<close>

definition toggleQRPause :: "bool \<Rightarrow> system \<Rightarrow> id_input \<Rightarrow> ((nat \<times> error_code) + bool) \<times> system" where
  "toggleQRPause dbFault s rid =
     (case rid of
        GoodId i \<Rightarrow>
          (if dbFault then (Inl (500, InternalError), s)
           else
             (case findById i (meetings s) of
                None \<Rightarrow> (Inl (404, NotFound), s)
              | Some m \<Rightarrow>
                  (Inr (\<not> qrPaused m),
                   s\<lparr>meetings := findByIdAndUpdate i (\<lambda>x. x\<lparr>qrPaused := \<not> qrPaused m\<rparr>) (meetings s)\<rparr>)))
      | _ \<Rightarrow> (Inl (400, BadRequest), s))"

section \<open>Lifecycle scheduler (\<^verbatim>\<open>services/autoActivationService.js\<close>)\<close>

text \<open>\<^verbatim>\<open>new Date(start.getTime() + (meeting.duration || 60) * 60000)\<close>\<close>

definition endTime :: "Meeting \<Rightarrow> instant" where
  "endTime m = dateTime m + (if duration m = 0 then 60 else duration m) * 60000"

text \<open>
  The \<^verbatim>\<open>update\<close> object of the activation branch, built from the document \<open>snap\<close> the query
  returned and applied to the stored document as a set of fields.
\<close>

definition activation_update :: "tick_env \<Rightarrow> Meeting \<Rightarrow> Meeting \<Rightarrow> Meeting" where
  "activation_update e snap m =
     (if mtype snap = Online then
        (if attendanceToken snap = [] then
           m\<lparr>isActive := True, attendanceToken := code_units (randomBytes e (m_id snap))\<rparr>
         else m\<lparr>isActive := True\<rparr>)
      else
        (if qrCode snap = None then
           (let qrPayload = \<lparr>meetingId = m_id snap, token = randomBytes e (m_id snap),
                             generatedAt = tick_now e\<rparr>
            in m\<lparr>isActive := True, qrCode := Some qrPayload, qrData := Some qrPayload\<rparr>)
         else m\<lparr>isActive := True\<rparr>))"

definition deactivation_update :: "Meeting \<Rightarrow> Meeting" where
  "deactivation_update m =
     m\<lparr>isActive := False, qrCode := None, qrData := None, qrPaused := False,
       attendanceToken := []\<rparr>"

text \<open>
  The two \<^verbatim>\<open>for ... of\<close> loops. They stand inside the one \<^verbatim>\<open>try\<close> block of the tick, with
  no handler of their own: an exception on one meeting leaves the loop (\<open>Threw\<close>), with the
  writes made so far.
\<close>

datatype outcome = Completed | Threw

fun activate_loop :: "tick_env \<Rightarrow> Meeting list \<Rightarrow> Meeting list \<times> log_entry list \<Rightarrow>
    (Meeting list \<times> log_entry list) \<times> outcome" where
  "activate_loop e [] st = (st, Completed)"
| "activate_loop e (m # rest) st =
     (if tick_now e < endTime m then
        (let lg = snd st @ (if mtype m = Online \<and> attendanceToken m = []
                            then [TokenGenerated (m_id m)] else [])
         in if throws e (m_id m) then ((fst st, lg), Threw)
            else activate_loop e rest
                   (findByIdAndUpdate (m_id m) (activation_update e m) (fst st),
                    lg @ [Activated (m_id m)]))
      else activate_loop e rest st)"

fun deactivate_loop :: "tick_env \<Rightarrow> Meeting list \<Rightarrow> Meeting list \<times> log_entry list \<Rightarrow>
    (Meeting list \<times> log_entry list) \<times> outcome" where
  "deactivate_loop e [] st = (st, Completed)"
| "deactivate_loop e (m # rest) st =
     (if tick_now e \<ge> endTime m then
        (if throws e (m_id m) then (st, Threw)
         else deactivate_loop e rest
                (findByIdAndUpdate (m_id m) deactivation_update (fst st),
                 snd st @ [Deactivated (m_id m)]))
      else deactivate_loop e rest st)"

definition checkAndUpdateMeetings :: "tick_env \<Rightarrow> system \<Rightarrow> system \<times> log_entry list" where
  "checkAndUpdateMeetings e s =
     (if findThrows e then (s, [ActivationServiceError])
      else
        (let meetingsToActivate =
               filter (\<lambda>m. \<not> isActive m \<and> dateTime m \<le> tick_now e) (meetings s);
             p1 = activate_loop e meetingsToActivate (meetings s, [])
         in if snd p1 = Threw \<or> findActiveThrows e
            then (s\<lparr>meetings := fst (fst p1)\<rparr>, snd (fst p1) @ [ActivationServiceError])
            else
              (let activeMeetings = filter isActive (fst (fst p1));
                   p2 = deactivate_loop e activeMeetings (fst p1)
               in (s\<lparr>meetings := fst (fst p2)\<rparr>,
                   snd (fst p2) @ (if snd p2 = Threw then [ActivationServiceError] else [])))))"

text \<open>The periodic loop: one tick per environment, each on the state the last one left.\<close>

fun scheduler_ticks :: "tick_env list \<Rightarrow> system \<Rightarrow> system" where
  "scheduler_ticks [] s = s"
| "scheduler_ticks (e # es) s = scheduler_ticks es (fst (checkAndUpdateMeetings e s))"

section \<open>Geofence calculator\<close>

text \<open>
  A JavaScript number is an IEEE 754 double: not a number, an infinity, the negative zero, or
  a finite double \<open>Num x\<close> with the real value \<open>x\<close> (the positive zero is \<open>Num 0\<close>).
\<close>

datatype number = NaN | PosInf | NegInf | NegZero | Num real

text \<open>
  The double arithmetic of the engine that runs the handler, taken as it is: the operators
  \<^verbatim>\<open>-\<close>, \<^verbatim>\<open>+\<close>, \<^verbatim>\<open>*\<close>, \<^verbatim>\<open>/\<close> and \<^verbatim>\<open>**\<close>, which round their results, and the functions and
  the constant of \<^verbatim>\<open>Math\<close> that the handler calls, which approximate theirs.
\<close>

record engine =
  js_sub :: "number \<Rightarrow> number \<Rightarrow> number"
  js_add :: "number \<Rightarrow> number \<Rightarrow> number"
  js_mul :: "number \<Rightarrow> number \<Rightarrow> number"
  js_div :: "number \<Rightarrow> number \<Rightarrow> number"
  js_pow :: "number \<Rightarrow> number \<Rightarrow> number"
  Math_sin :: "number \<Rightarrow> number"
  Math_cos :: "number \<Rightarrow> number"
  Math_sqrt :: "number \<Rightarrow> number"
  Math_atan2 :: "number \<Rightarrow> number \<Rightarrow> number"
  Math_PI :: number

text \<open>
  \<^verbatim>\<open>distance > radius\<close> with a finite radius: false when the distance is not a number. And
  \<^verbatim>\<open>Math.round\<close>, which the language defines exactly.
\<close>

fun js_gt :: "number \<Rightarrow> real \<Rightarrow> bool" where
  "js_gt NaN r = False"
| "js_gt PosInf r = True"
| "js_gt NegInf r = False"
| "js_gt NegZero r = (0 > r)"
| "js_gt (Num x) r = (x > r)"

fun Math_round :: "number \<Rightarrow> number" where
  "Math_round (Num x) = (if - (1 / 2) \<le> x \<and> x < 0 then NegZero else Num (of_int \<lfloor>x + 1 / 2\<rfloor>))"
| "Math_round n = n"

text \<open>
  The haversine formula of \<^verbatim>\<open>scanQRAttendance\<close> (lines 404 to 414) with its constant
  \<^verbatim>\<open>R = 6371000\<close>, operation by operation in the arithmetic \<open>M\<close> of the engine.
\<close>

definition toRad :: "engine \<Rightarrow> number \<Rightarrow> number" where
  "toRad M deg = js_div M (js_mul M deg (Math_PI M)) (Num 180)"

definition haversine :: "engine \<Rightarrow> real \<Rightarrow> real \<Rightarrow> real \<Rightarrow> real \<Rightarrow> number" where
  "haversine M la lo clat clng =
     (let R = Num 6371000;
          dLat = toRad M (js_sub M (Num la) (Num clat));
          dLng = toRad M (js_sub M (Num lo) (Num clng));
          a = js_add M
                (js_pow M (Math_sin M (js_div M dLat (Num 2))) (Num 2))
                (js_mul M
                   (js_mul M (Math_cos M (toRad M (Num clat))) (Math_cos M (toRad M (Num la))))
                   (js_pow M (Math_sin M (js_div M dLng (Num 2))) (Num 2)))
      in js_mul M (js_mul M R (Num 2))
           (Math_atan2 M (Math_sqrt M a) (Math_sqrt M (js_sub M (Num 1) a))))"

section \<open>Attendance validator and recorder (\<^verbatim>\<open>controllers/attendanceController.js\<close>)\<close>

text \<open>
  The text of a response, by the branch that sends it; the out-of-range text quotes
  \<^verbatim>\<open>Math.round(distance)\<close> and the radius.
\<close>

datatype message =
    QrDataRequired | InvalidQrCode | InvalidQrFormat | MeetingNotFound | QrExpired
  | QrOfflineOnly | NotStartedYet | HasEnded | UserNotFound | NotOnParticipantsList
  | GeofenceNeedsLocation | OutsideGeofence number real | MalformedMeetingId | FailedToMark
  | TokenRequired | InvalidLink | LinkOnlineOnly

datatype payload = MeetingInfo oid | MeetingLink string | NoData

text \<open>
  \<open>Failure status error message\<close>, \<open>Success status alreadyAttended data\<close>, and \<open>Rejected\<close>:
  the handler's promise rejects and the error goes to the framework.
\<close>

datatype response =
    Failure nat error_code message
  | Success nat bool payload
  | Rejected

datatype db_op = FindMeeting | FindUser | FindAttendance | CreateAttendance | RefetchMeeting

text \<open>
  What a request depends on besides its body and the state: the clock, the uid the
  authentication middleware attached, which of the handler's store operations throw
  an error other than the ones the handler names, and the arithmetic of the engine.
\<close>

record req_env =
  req_now :: instant
  uid :: string
  dbThrows :: "db_op \<Rightarrow> bool"
  math :: engine

text \<open>
  \<^verbatim>\<open>req.body.qrData\<close> after \<^verbatim>\<open>JSON.parse\<close>: absent or empty (\<open>QrMissing\<close>), no JSON
  (\<open>QrUnparsable\<close>), the JSON \<^verbatim>\<open>null\<close> (destructuring it throws a \<^verbatim>\<open>TypeError\<close>), or a value
  with the fields \<^verbatim>\<open>meetingId\<close> and \<^verbatim>\<open>token\<close>, the empty token standing for a missing one.
\<close>

datatype qr_input = QrMissing | QrUnparsable | QrNull | QrObject id_input string

record scan_req =
  req_qrData :: qr_input
  req_lat :: "real option"
  req_lng :: "real option"
  req_accuracy :: "real option"

definition record_location :: "real option \<Rightarrow> real option \<Rightarrow> real option \<Rightarrow> Location option" where
  "record_location la lo acc =
     (case la of
        None \<Rightarrow> None
      | Some x \<Rightarrow>
          (case lo of
             None \<Rightarrow> None
           | Some y \<Rightarrow> Some \<lparr>lat = x, lng = y, accuracy = acc\<rparr>))"

definition stored_token :: "Meeting \<Rightarrow> string option" where
  "stored_token m = map_option token (qrData m)"

definition isAllowed :: "Meeting \<Rightarrow> oid \<Rightarrow> bool" where
  "isAllowed m u = (\<exists>pid \<in> set (participants m). pid = u)"

subsection \<open>\<^verbatim>\<open>scanQRAttendance\<close>\<close>

text \<open>Lines 425 to 463: the duplicate pre-check, then the record to insert.\<close>

definition scan_existing :: "req_env \<Rightarrow> system \<Rightarrow> Meeting \<Rightarrow> oid \<Rightarrow> scan_req \<Rightarrow>
    response + Attendance" where
  "scan_existing e s m u req =
     (if dbThrows e FindAttendance then Inl (Failure 500 InternalError FailedToMark)
      else if findOne_attendance (m_id m) u (attendances s) \<noteq> None
      then Inl (Success 200 True (MeetingInfo (m_id m)))
      else Inr \<lparr>meeting = m_id m, user = u, att_method = Qr, markedAt = req_now e,
                att_location = record_location (req_lat req) (req_lng req) (req_accuracy req)\<rparr>)"

text \<open>Lines 394 to 423: the geofence.\<close>

definition scan_geofence :: "req_env \<Rightarrow> system \<Rightarrow> Meeting \<Rightarrow> oid \<Rightarrow> scan_req \<Rightarrow>
    response + Attendance" where
  "scan_geofence e s m u req =
     (if enabled (geofencing m) then
        (if req_lat req = None \<or> req_lng req = None
         then Inl (Failure 400 LocationRequired GeofenceNeedsLocation)
         else
           (let distance = haversine (math e) (the (req_lat req)) (the (req_lng req))
                             (center_lat (geofencing m)) (center_lng (geofencing m))
            in if js_gt distance (radius (geofencing m))
               then Inl (Failure 400 OutOfRange
                          (OutsideGeofence (Math_round distance) (radius (geofencing m))))
               else scan_existing e s m u req))
      else scan_existing e s m u req)"

text \<open>Lines 370 to 392: the user and the participants list.\<close>

definition scan_user :: "req_env \<Rightarrow> system \<Rightarrow> Meeting \<Rightarrow> scan_req \<Rightarrow> response + Attendance" where
  "scan_user e s m req =
     (if dbThrows e FindUser then Inl (Failure 500 InternalError FailedToMark)
      else
        (case users s (uid e) of
           None \<Rightarrow> Inl (Failure 403 Forbidden UserNotFound)
         | Some u \<Rightarrow>
             (if participation m = Selected \<and> \<not> isAllowed m u
              then Inl (Failure 403 Forbidden NotOnParticipantsList)
              else scan_geofence e s m u req)))"

text \<open>Lines 349 to 368: the time window.\<close>

definition scan_window :: "req_env \<Rightarrow> system \<Rightarrow> Meeting \<Rightarrow> scan_req \<Rightarrow> response + Attendance" where
  "scan_window e s m req =
     (if req_now e < dateTime m then Inl (Failure 400 TooEarly NotStartedYet)
      else if req_now e \<ge> endTime m then Inl (Failure 400 MeetingEnded HasEnded)
      else scan_user e s m req)"

text \<open>Lines 323 to 347: the token of the stored QR, then the type of the meeting.\<close>

definition scan_meeting :: "req_env \<Rightarrow> system \<Rightarrow> Meeting \<Rightarrow> string \<Rightarrow> scan_req \<Rightarrow>
    response + Attendance" where
  "scan_meeting e s m tok req =
     (if stored_token m \<noteq> Some tok then Inl (Failure 400 ExpiredQR QrExpired)
      else if mtype m \<noteq> Offline then Inl (Failure 400 BadRequest QrOfflineOnly)
      else scan_window e s m req)"

text \<open>Lines 282 to 321: the payload and the meeting it names.\<close>

definition scanQR_check :: "req_env \<Rightarrow> system \<Rightarrow> scan_req \<Rightarrow> response + Attendance" where
  "scanQR_check e s req =
     (case req_qrData req of
        QrMissing \<Rightarrow> Inl (Failure 400 BadRequest QrDataRequired)
      | QrUnparsable \<Rightarrow> Inl (Failure 400 BadRequest InvalidQrCode)
      | QrNull \<Rightarrow> Inl (Failure 500 InternalError FailedToMark)
      | QrObject mid tok \<Rightarrow>
          (if mid = NoId \<or> tok = [] then Inl (Failure 400 BadRequest InvalidQrFormat)
           else
             (case mid of
                NoId \<Rightarrow> Inl (Failure 400 BadRequest InvalidQrFormat)
              | BadId \<Rightarrow> Inl (Failure 400 BadRequest MalformedMeetingId)
              | GoodId i \<Rightarrow>
                  (if dbThrows e FindMeeting then Inl (Failure 500 InternalError FailedToMark)
                   else
                     (case findById i (meetings s) of
                        None \<Rightarrow> Inl (Failure 404 NotFound MeetingNotFound)
                      | Some m \<Rightarrow> scan_meeting e s m tok req)))))"

text \<open>Line 465 and the \<^verbatim>\<open>catch\<close> block: the insert, and what a failed insert answers.\<close>

definition scan_create :: "req_env \<Rightarrow> system \<Rightarrow> Attendance \<Rightarrow> response \<times> system" where
  "scan_create e s r =
     (case Attendance_create (dbThrows e CreateAttendance) (attendances s) r of
        Created atts \<Rightarrow> (Success 201 False (MeetingInfo (meeting r)), s\<lparr>attendances := atts\<rparr>)
      | DuplicateKey \<Rightarrow> (Success 200 True NoData, s)
      | StoreError \<Rightarrow> (Failure 500 InternalError FailedToMark, s))"

definition scanQRAttendance :: "req_env \<Rightarrow> system \<Rightarrow> scan_req \<Rightarrow> response \<times> system" where
  "scanQRAttendance e s req =
     (case scanQR_check e s req of
        Inl r \<Rightarrow> (r, s)
      | Inr rec \<Rightarrow> scan_create e s rec)"

subsection \<open>\<^verbatim>\<open>markAttendance\<close>\<close>

text \<open>
  \<^verbatim>\<open>String.prototype.trim\<close>: the code units it removes at both ends are the white space
  and the line terminators of the language (tab, line feed, vertical tab, form feed, carriage
  return, space, no-break space, the space separators U+1680, U+2000 to U+200A, U+202F,
  U+205F and U+3000, the line and paragraph separators, and the byte order mark).
\<close>

definition js_whitespace :: "nat \<Rightarrow> bool" where
  "js_whitespace c =
     (c \<in> {0x09, 0x0A, 0x0B, 0x0C, 0x0D, 0x20, 0xA0, 0x1680, 0x2028, 0x2029, 0x202F, 0x205F,
           0x3000, 0xFEFF}
      \<or> (0x2000 \<le> c \<and> c \<le> 0x200A))"

definition trim :: "js_string \<Rightarrow> js_string" where
  "trim t = rev (dropWhile js_whitespace (rev (dropWhile js_whitespace t)))"

record mark_req =
  param_token :: js_string
  body_lat :: "real option"
  body_lng :: "real option"
  body_accuracy :: "real option"

definition findOne_by_token :: "js_string \<Rightarrow> Meeting list \<Rightarrow> Meeting option" where
  "findOne_by_token t ms = find (\<lambda>m. attendanceToken m = t) ms"

text \<open>
  Lines 199 to 232: the duplicate pre-check, then the record to insert, with the meeting
  document whose link the answer quotes.
\<close>

definition mark_existing :: "req_env \<Rightarrow> system \<Rightarrow> Meeting \<Rightarrow> oid \<Rightarrow> mark_req \<Rightarrow>
    response + Meeting \<times> Attendance" where
  "mark_existing e s m u req =
     (if dbThrows e FindAttendance then Inl (Failure 500 InternalError FailedToMark)
      else if findOne_attendance (m_id m) u (attendances s) \<noteq> None
      then Inl (Success 200 True (MeetingLink (meetingLink m)))
      else Inr (m, \<lparr>meeting = m_id m, user = u, att_method = Link, markedAt = req_now e,
                  att_location =
                    record_location (body_lat req) (body_lng req) (body_accuracy req)\<rparr>))"

text \<open>Lines 175 to 197: the user and the participants list.\<close>

definition mark_user :: "req_env \<Rightarrow> system \<Rightarrow> Meeting \<Rightarrow> mark_req \<Rightarrow>
    response + Meeting \<times> Attendance" where
  "mark_user e s m req =
     (if dbThrows e FindUser then Inl (Failure 500 InternalError FailedToMark)
      else
        (case users s (uid e) of
           None \<Rightarrow> Inl (Failure 403 Forbidden UserNotFound)
         | Some u \<Rightarrow>
             (if participation m = Selected \<and> \<not> isAllowed m u
              then Inl (Failure 403 Forbidden NotOnParticipantsList)
              else mark_existing e s m u req)))"

text \<open>Lines 146 to 173: the type of the meeting, then the time window.\<close>

definition mark_meeting :: "req_env \<Rightarrow> system \<Rightarrow> Meeting \<Rightarrow> mark_req \<Rightarrow>
    response + Meeting \<times> Attendance" where
  "mark_meeting e s m req =
     (if mtype m \<noteq> Online then Inl (Failure 400 BadRequest LinkOnlineOnly)
      else if req_now e < dateTime m then Inl (Failure 400 TooEarly NotStartedYet)
      else if req_now e \<ge> endTime m then Inl (Failure 400 MeetingEnded HasEnded)
      else mark_user e s m req)"

text \<open>Lines 126 to 144: the token of the link and the meeting it names.\<close>

definition mark_check :: "req_env \<Rightarrow> system \<Rightarrow> mark_req \<Rightarrow>
    response + Meeting \<times> Attendance" where
  "mark_check e s req =
     (if param_token req = [] \<or> trim (param_token req) = []
      then Inl (Failure 400 BadRequest TokenRequired)
      else if dbThrows e FindMeeting then Inl (Failure 500 InternalError FailedToMark)
      else
        (case findOne_by_token (param_token req) (meetings s) of
           None \<Rightarrow> Inl (Failure 404 NotFound InvalidLink)
         | Some m \<Rightarrow> mark_meeting e s m req))"

text \<open>
  Line 234 and the \<^verbatim>\<open>catch\<close> block. On the duplicate key error the handler reads the meeting
  again for its link; when that read throws, nothing catches it.
\<close>

definition mark_create :: "req_env \<Rightarrow> system \<Rightarrow> mark_req \<Rightarrow> Meeting \<Rightarrow> Attendance \<Rightarrow>
    response \<times> system" where
  "mark_create e s req m r =
     (case Attendance_create (dbThrows e CreateAttendance) (attendances s) r of
        Created atts \<Rightarrow> (Success 201 False (MeetingLink (meetingLink m)), s\<lparr>attendances := atts\<rparr>)
      | DuplicateKey \<Rightarrow>
          (if dbThrows e RefetchMeeting then (Rejected, s)
           else
             (case findOne_by_token (param_token req) (meetings s) of
                None \<Rightarrow> (Success 200 True (MeetingLink []), s)
              | Some m' \<Rightarrow> (Success 200 True (MeetingLink (meetingLink m')), s)))
      | StoreError \<Rightarrow> (Failure 500 InternalError FailedToMark, s))"

definition markAttendance :: "req_env \<Rightarrow> system \<Rightarrow> mark_req \<Rightarrow> response \<times> system" where
  "markAttendance e s req =
     (case mark_check e s req of
        Inl r \<Rightarrow> (r, s)
      | Inr p \<Rightarrow> mark_create e s req (fst p) (snd p))"

subsection \<open>Submissions that overlap\<close>

text \<open>
  A handler reads the store up to its duplicate pre-check and writes once, with
  \<^verbatim>\<open>Attendance.create\<close>; other requests may write between the two. The attendance
  collection only grows at its end, so what the pre-check saw is a prefix of what the insert
  meets: \<open>submit_at e k s sub\<close> runs the checks on the first \<open>k\<close> records and the insert on all
  of them. With \<open>k\<close> the length of the collection it is the handler run alone.
\<close>

datatype submission = ScanQR scan_req | MarkLink mark_req

datatype pending = ScanInsert Attendance | MarkInsert mark_req Meeting Attendance

definition check :: "req_env \<Rightarrow> system \<Rightarrow> submission \<Rightarrow> response + pending" where
  "check e s sub =
     (case sub of
        ScanQR req \<Rightarrow> map_sum id ScanInsert (scanQR_check e s req)
      | MarkLink req \<Rightarrow> map_sum id (\<lambda>p. MarkInsert req (fst p) (snd p)) (mark_check e s req))"

definition commit :: "req_env \<Rightarrow> system \<Rightarrow> pending \<Rightarrow> response \<times> system" where
  "commit e s p =
     (case p of
        ScanInsert r \<Rightarrow> scan_create e s r
      | MarkInsert req m r \<Rightarrow> mark_create e s req m r)"

definition submit_at :: "req_env \<Rightarrow> nat \<Rightarrow> system \<Rightarrow> submission \<Rightarrow> response \<times> system" where
  "submit_at e k s sub =
     (case check e (s\<lparr>attendances := take k (attendances s)\<rparr>) sub of
        Inl r \<Rightarrow> (r, s)
      | Inr p \<Rightarrow> commit e s p)"

fun run :: "system \<Rightarrow> (req_env \<times> nat \<times> submission) list \<Rightarrow> response list \<times> system" where
  "run s [] = ([], s)"
| "run s (x # xs) =
     (let r1 = submit_at (fst x) (fst (snd x)) s (snd (snd x));
          r2 = run (snd r1) xs
      in (fst r1 # fst r2, snd r2))"

text \<open>The two successful answers.\<close>

fun is_fresh :: "response \<Rightarrow> bool" where
  "is_fresh (Success st already d) = (st = 201 \<and> \<not> already)"
| "is_fresh _ = False"

fun is_already :: "response \<Rightarrow> bool" where
  "is_already (Success st already d) = (st = 200 \<and> already)"
| "is_already _ = False"

section \<open>Sample data\<close>

text \<open>
  A meeting, a state and a tick on which the theorems below are run: an offline meeting from
  instant 1000000 for 60 minutes, that is until 4600000, and two registered users.
\<close>

definition sample_meeting :: Meeting where
  "sample_meeting =
     \<lparr>m_id = 1, title = ''Study jam'', description = [], mtype = Offline,
      dateTime = 1000000, duration = 60, location = ''Room 1'', meetingLink = [],
      qrCode = None, qrData = None, attendanceToken = [], createdBy = 7,
      isActive = False, qrPaused = False, participation = Anyone, participants = [],
      geofencing = \<lparr>enabled = False, center_lat = 0, center_lng = 0, radius = 200\<rparr>\<rparr>"

definition sample_system :: "Meeting list \<Rightarrow> system" where
  "sample_system ms =
     \<lparr>meetings = ms, attendances = [],
      users = (\<lambda>u. if u = ''alice'' then Some 11 else if u = ''bob'' then Some 12 else None),
      lastRefreshedAt = Some 0\<rparr>"

definition sample_tick :: "instant \<Rightarrow> (oid \<Rightarrow> bool) \<Rightarrow> tick_env" where
  "sample_tick t failing =
     \<lparr>tick_now = t, randomBytes = (\<lambda>i. if i = 1 then ''a1'' else ''b2''), throws = failing,
      findThrows = False, findActiveThrows = False\<rparr>"

text \<open>What a rotation writes into the meeting \<open>i\<close>.\<close>

definition rotated :: "tick_env \<Rightarrow> oid \<Rightarrow> Meeting \<Rightarrow> Meeting" where
  "rotated e i m =
     m\<lparr>qrCode := Some \<lparr>meetingId = i, token = randomBytes e i, generatedAt = tick_now e\<rparr>,
       qrData := Some \<lparr>meetingId = i, token = randomBytes e i, generatedAt = tick_now e\<rparr>\<rparr>"

text \<open>
  A sample arithmetic: IEEE 754 binary64 with rounding to nearest, ties to even, on finite
  operands and without overflow or underflow, which the examples do not reach. \<open>fl\<close> rounds
  a real number to 53 significant bits. Every operation returns the rounded exact result:
  the four operations and the square root as the standard requires, the sine, the cosine and
  the arc tangent as an implementation of full accuracy does.
\<close>

definition rne :: "real \<Rightarrow> int" where
  "rne x =
     (let f = \<lfloor>x\<rfloor>
      in if x - of_int f < 1 / 2 then f
         else if 1 / 2 < x - of_int f then f + 1
         else if even f then f else f + 1)"

definition fl :: "real \<Rightarrow> real" where
  "fl x =
     (if x = 0 then 0
      else (let u = 2 powr (of_int \<lfloor>log 2 \<bar>x\<bar>\<rfloor> - 52) in of_int (rne (x / u)) * u))"

fun ieee_op :: "(real \<Rightarrow> real \<Rightarrow> real) \<Rightarrow> number \<Rightarrow> number \<Rightarrow> number" where
  "ieee_op f (Num x) (Num y) = Num (fl (f x y))"
| "ieee_op f a b = NaN"

fun ieee_div :: "number \<Rightarrow> number \<Rightarrow> number" where
  "ieee_div (Num x) (Num y) = (if y = 0 then NaN else Num (fl (x / y)))"
| "ieee_div a b = NaN"

fun ieee_pow :: "number \<Rightarrow> number \<Rightarrow> number" where
  "ieee_pow (Num x) (Num y) = (if y = 2 then Num (fl (x * x)) else NaN)"
| "ieee_pow a b = NaN"

fun ieee_sqrt :: "number \<Rightarrow> number" where
  "ieee_sqrt (Num x) = (if x < 0 then NaN else Num (fl (sqrt x)))"
| "ieee_sqrt a = NaN"

fun ieee_sin :: "number \<Rightarrow> number" where
  "ieee_sin (Num x) = Num (fl (sin x))"
| "ieee_sin a = NaN"

fun ieee_cos :: "number \<Rightarrow> number" where
  "ieee_cos (Num x) = Num (fl (cos x))"
| "ieee_cos a = NaN"

definition atan2 :: "real \<Rightarrow> real \<Rightarrow> real" where
  "atan2 y x =
     (if x > 0 then arctan (y / x)
      else if x < 0 then (if y \<ge> 0 then arctan (y / x) + pi else arctan (y / x) - pi)
      else if y > 0 then pi / 2
      else if y < 0 then - pi / 2
      else 0)"

fun ieee_atan2 :: "number \<Rightarrow> number \<Rightarrow> number" where
  "ieee_atan2 (Num y) (Num x) = Num (fl (atan2 y x))"
| "ieee_atan2 a b = NaN"

definition ieee :: engine where
  "ieee =
     \<lparr>js_sub = ieee_op (-), js_add = ieee_op (+), js_mul = ieee_op (*), js_div = ieee_div,
      js_pow = ieee_pow, Math_sin = ieee_sin, Math_cos = ieee_cos, Math_sqrt = ieee_sqrt,
      Math_atan2 = ieee_atan2, Math_PI = Num (884279719003555 / 281474976710656)\<rparr>"

definition sample_env :: "instant \<Rightarrow> string \<Rightarrow> req_env" where
  "sample_env t u = \<lparr>req_now = t, uid = u, dbThrows = (\<lambda>op. False), math = ieee\<rparr>"

definition sample_scan :: "string \<Rightarrow> real option \<Rightarrow> real option \<Rightarrow> scan_req" where
  "sample_scan tok la lo =
     \<lparr>req_qrData = QrObject (GoodId 1) tok, req_lat = la, req_lng = lo, req_accuracy = None\<rparr>"

definition sample_mark :: "string \<Rightarrow> mark_req" where
  "sample_mark tok =
     \<lparr>param_token = code_units tok, body_lat = None, body_lng = None, body_accuracy = None\<rparr>"

definition sample_qr :: "string \<Rightarrow> QrPayload option" where
  "sample_qr tok = Some \<lparr>meetingId = 1, token = tok, generatedAt = 1500000\<rparr>"

text \<open>The error code of a response, if it is a failure.\<close>

fun error_of :: "response \<Rightarrow> error_code option" where
  "error_of (Failure st err msg) = Some err"
| "error_of _ = None"

text \<open>The cached flag: a state that differs in the \<open>isActive\<close> flags only.\<close>

definition with_flags :: "(Meeting \<Rightarrow> bool) \<Rightarrow> system \<Rightarrow> system" where
  "with_flags b s = s\<lparr>meetings := map (\<lambda>x. x\<lparr>isActive := b x\<rparr>) (meetings s)\<rparr>"

text \<open>
  The distance the specification speaks of: the haversine great-circle distance in metres
  between two points given in degrees, on a sphere of radius 6371000, on the real numbers.
\<close>

definition radians :: "real \<Rightarrow> real" where
  "radians deg = deg * pi / 180"

definition hav :: "real \<Rightarrow> real \<Rightarrow> real \<Rightarrow> real \<Rightarrow> real" where
  "hav la lo clat clng =
     (sin (radians (la - clat) / 2))\<^sup>2
       + cos (radians clat) * cos (radians la) * (sin (radians (lo - clng) / 2))\<^sup>2"

definition great_circle :: "real \<Rightarrow> real \<Rightarrow> real \<Rightarrow> real \<Rightarrow> real" where
  "great_circle la lo clat clng = 2 * 6371000 * arcsin (sqrt (hav la lo clat clng))"

text \<open>The sample meeting with a token and a fence of 200 metres around (8, 80.5).\<close>

definition fenced_meeting :: Meeting where
  "fenced_meeting =
     sample_meeting\<lparr>qrData := sample_qr ''a0'',
       geofencing := \<lparr>enabled = True, center_lat = 8, center_lng = 161 / 2, radius = 200\<rparr>\<rparr>"

text \<open>
  What the statement of exactly-once recording speaks of. A submission is eligible for the
  meeting \<open>E\<close> and the user \<open>S\<close> when its proof names \<open>E\<close> (by the id in the QR payload, or by
  the attendance token of the link), the token is the stored one, the meeting is of the
  channel of the handler, the clock is inside the window, the authenticated uid is the user
  \<open>S\<close>, a restricted meeting lists \<open>S\<close>, and an enabled geofence is not exceeded by the computed
  distance. Its record is the one of \<open>E\<close> and \<open>S\<close> with the method of the handler, the clock
  and the submitted location.
\<close>

definition eligible_scan :: "req_env \<Rightarrow> system \<Rightarrow> scan_req \<Rightarrow> oid \<Rightarrow> oid \<Rightarrow> bool" where
  "eligible_scan e s req E S =
     (case req_qrData req of
        QrObject mid tok \<Rightarrow>
          mid = GoodId E \<and> tok \<noteq> []
          \<and> (case findById E (meetings s) of
                None \<Rightarrow> False
              | Some m \<Rightarrow>
                  stored_token m = Some tok \<and> mtype m = Offline
                  \<and> dateTime m \<le> req_now e \<and> req_now e < endTime m
                  \<and> users s (uid e) = Some S
                  \<and> (participation m = Selected \<longrightarrow> S \<in> set (participants m))
                  \<and> (enabled (geofencing m) \<longrightarrow>
                        req_lat req \<noteq> None \<and> req_lng req \<noteq> None
                        \<and> \<not> js_gt (haversine (math e) (the (req_lat req)) (the (req_lng req))
                                     (center_lat (geofencing m)) (center_lng (geofencing m)))
                                  (radius (geofencing m))))
      | _ \<Rightarrow> False)"

definition eligible_mark :: "req_env \<Rightarrow> system \<Rightarrow> mark_req \<Rightarrow> oid \<Rightarrow> oid \<Rightarrow> bool" where
  "eligible_mark e s req E S =
     (param_token req \<noteq> [] \<and> trim (param_token req) \<noteq> []
      \<and> (case findOne_by_token (param_token req) (meetings s) of
            None \<Rightarrow> False
          | Some m \<Rightarrow>
              m_id m = E \<and> mtype m = Online
              \<and> dateTime m \<le> req_now e \<and> req_now e < endTime m
              \<and> users s (uid e) = Some S
              \<and> (participation m = Selected \<longrightarrow> S \<in> set (participants m))))"

fun eligible :: "req_env \<Rightarrow> system \<Rightarrow> submission \<Rightarrow> oid \<Rightarrow> oid \<Rightarrow> bool" where
  "eligible e s (ScanQR req) E S = eligible_scan e s req E S"
| "eligible e s (MarkLink req) E S = eligible_mark e s req E S"

fun expected_record :: "req_env \<Rightarrow> submission \<Rightarrow> oid \<Rightarrow> oid \<Rightarrow> Attendance" where
  "expected_record e (ScanQR req) E S =
     \<lparr>meeting = E, user = S, att_method = Qr, markedAt = req_now e,
      att_location = record_location (req_lat req) (req_lng req) (req_accuracy req)\<rparr>"
| "expected_record e (MarkLink req) E S =
     \<lparr>meeting = E, user = S, att_method = Link, markedAt = req_now e,
      att_location = record_location (body_lat req) (body_lng req) (body_accuracy req)\<rparr>"

text \<open>A request none of whose store operations fails for a reason the handler does not name.\<close>

definition store_ok :: "req_env \<Rightarrow> bool" where
  "store_ok e =
     (\<not> dbThrows e FindMeeting \<and> \<not> dbThrows e FindUser \<and> \<not> dbThrows e FindAttendance
      \<and> \<not> dbThrows e CreateAttendance \<and> \<not> dbThrows e RefetchMeeting)"

text \<open>
  For the proofs: the record a pending insert carries, a submission whose checks end, on an
  empty attendance collection, with the insert of its record, and a collection that holds a
  record of the pair.
\<close>

fun pending_record :: "pending \<Rightarrow> Attendance" where
  "pending_record (ScanInsert r) = r"
| "pending_record (MarkInsert req m r) = r"

definition valid_for :: "req_env \<Rightarrow> system \<Rightarrow> submission \<Rightarrow> oid \<Rightarrow> oid \<Rightarrow> bool" where
  "valid_for e s sub E S =
     (case check e (s\<lparr>attendances := []\<rparr>) sub of
        Inl r \<Rightarrow> False
      | Inr p \<Rightarrow> pending_record p = expected_record e sub E S)"

definition has_record :: "oid \<Rightarrow> oid \<Rightarrow> Attendance list \<Rightarrow> bool" where
  "has_record E S atts = (findOne_attendance E S atts \<noteq> None)"

text \<open>
  Two QR submissions of the same user that overlap, and two link submissions that do: each
  pre-check reads the collection as it was before either insert (its first 0 records).
\<close>

definition two_scans :: "(req_env \<times> nat \<times> submission) list" where
  "two_scans =
     [(sample_env 2000000 ''alice'', 0, ScanQR (sample_scan ''a0'' None None)),
      (sample_env 2000001 ''alice'', 0, ScanQR (sample_scan ''a0'' None None))]"

definition two_marks :: "(req_env \<times> nat \<times> submission) list" where
  "two_marks =
     [(sample_env 2000000 ''bob'', 0, MarkLink (sample_mark ''link'')),
      (sample_env 2000001 ''bob'', 0, MarkLink (sample_mark ''link''))]"

text \<open>The sample meeting held online, with an attendance link and a list of participants.\<close>

definition online_meeting :: Meeting where
  "online_meeting =
     sample_meeting\<lparr>m_id := 3, mtype := Online, meetingLink := ''https://meet.example/abc'',
       attendanceToken := code_units ''link'', participation := Selected,
       participants := [12]\<rparr>"

section \<open>The meeting collection under updates\<close>

lemma findById_Cons [simp]:
  "findById i (m # ms) = (if m_id m = i then Some m else findById i ms)"
  by (simp add: findById_def)

lemma findById_Nil [simp]: "findById i [] = None"
  by (simp add: findById_def)

lemma findById_update:
  assumes "\<And>m. m_id (f m) = m_id m"
  shows "findById j (findByIdAndUpdate i f ms)
         = (if i = j then map_option f (findById j ms) else findById j ms)"
  using assms by (induction ms) auto

lemma ids_update:
  assumes "\<And>m. m_id (f m) = m_id m"
  shows "map m_id (findByIdAndUpdate i f ms) = map m_id ms"
  using assms by (induction ms) auto

lemma findById_in_set: "findById i ms = Some m \<Longrightarrow> m \<in> set ms \<and> m_id m = i"
  by (induction ms) (auto split: if_splits)

lemma findById_unique:
  "distinct (map m_id ms) \<Longrightarrow> findById i ms = Some m \<Longrightarrow> x \<in> set ms \<Longrightarrow> m_id x = i \<Longrightarrow> x = m"
  by (induction ms) (auto split: if_splits dest: findById_in_set)

section \<open>The countdown of the status query\<close>

lemma ceiling_interval:
  "\<lceil>real_of_int QR_REFRESH_INTERVAL - real_of_int d / 1000\<rceil> = 20 - d div 1000"
proof -
  have "\<lceil>20 - real_of_int d / 1000\<rceil> = 20 - \<lfloor>real_of_int d / 1000\<rfloor>"
    by (simp add: ceiling_def)
  also have "\<lfloor>real_of_int d / 1000\<rfloor> = d div 1000"
    by (simp add: floor_divide_of_int_eq [of d 1000, where ?'a = real, simplified])
  finally show ?thesis by (simp add: QR_REFRESH_INTERVAL_def)
qed

lemma seconds_Some:
  "getSecondsUntilNextRefresh (Some l) now = max 0 (20 - (now - l) div 1000)"
  using ceiling_interval [of "now - l"]
  by (simp add: getSecondsUntilNextRefresh_def del: of_int_diff)

lemma getQRStatus_found:
  assumes "findById i (meetings s) = Some m"
  shows "getQRStatus now False s (GoodId i)
           = Inr \<lparr>st_qrCode = qrCode m, st_qrData = qrData m, st_isActive = isActive m,
                  st_qrPaused = qrPaused m,
                  secondsRemaining = getSecondsUntilNextRefresh (lastRefreshedAt s) now,
                  refreshInterval = QR_REFRESH_INTERVAL\<rparr>"
  using assms by (simp add: getQRStatus_def)

text \<open>
  Claim C10, as amended. \<^verbatim>\<open>getSecondsUntilNextRefresh\<close> is 0 while \<^verbatim>\<open>lastRefreshedAt\<close> is
  unset; otherwise it is the ceiling of the interval minus the elapsed seconds, clamped below
  at 0, which in whole milliseconds is \<open>max 0 (20 - (now - l) div 1000)\<close>. It is a whole number
  that is never negative, and it is at most the interval of 20 seconds at every query whose
  clock is not earlier than the instant of the last rotation. The status query of an existing
  meeting, when the store answers, reports this value with the stored QR and flags.
\<close>

theorem seconds_until_next_refresh:
  "getSecondsUntilNextRefresh None now = 0
   \<and> getSecondsUntilNextRefresh (Some l) now
       = max 0 \<lceil>real_of_int QR_REFRESH_INTERVAL - real_of_int (now - l) / 1000\<rceil>
   \<and> getSecondsUntilNextRefresh (Some l) now = max 0 (20 - (now - l) div 1000)
   \<and> 0 \<le> getSecondsUntilNextRefresh lastRef now
   \<and> ((\<forall>t. lastRef = Some t \<longrightarrow> t \<le> now)
        \<longrightarrow> getSecondsUntilNextRefresh lastRef now \<le> QR_REFRESH_INTERVAL)
   \<and> (findById i (meetings s) = Some m
        \<longrightarrow> getQRStatus now False s (GoodId i)
             = Inr \<lparr>st_qrCode = qrCode m, st_qrData = qrData m, st_isActive = isActive m,
                    st_qrPaused = qrPaused m,
                    secondsRemaining = getSecondsUntilNextRefresh (lastRefreshedAt s) now,
                    refreshInterval = QR_REFRESH_INTERVAL\<rparr>)"
proof -
  have a: "getSecondsUntilNextRefresh None now = 0"
    by (simp add: getSecondsUntilNextRefresh_def)
  have b: "getSecondsUntilNextRefresh (Some l) now
       = max 0 \<lceil>real_of_int QR_REFRESH_INTERVAL - real_of_int (now - l) / 1000\<rceil>"
    by (simp add: getSecondsUntilNextRefresh_def)
  have c: "0 \<le> getSecondsUntilNextRefresh lastRef now"
    by (cases lastRef) (simp_all add: a seconds_Some)
  have d: "getSecondsUntilNextRefresh lastRef now \<le> QR_REFRESH_INTERVAL"
    if "\<forall>t. lastRef = Some t \<longrightarrow> t \<le> now"
  proof (cases lastRef)
    case None
    then show ?thesis by (simp add: a QR_REFRESH_INTERVAL_def)
  next
    case (Some t)
    with that have "0 \<le> (now - t) div 1000" by simp
    with Some show ?thesis by (simp add: seconds_Some QR_REFRESH_INTERVAL_def)
  qed
  from a b c d getQRStatus_found [of i s m now] show ?thesis
    by (simp add: seconds_Some)
qed

theorem seconds_until_next_refresh_witness:
  "getSecondsUntilNextRefresh (Some 1000) 6500 = 15
   \<and> getSecondsUntilNextRefresh (Some 1000) 6500 \<le> QR_REFRESH_INTERVAL
   \<and> getSecondsUntilNextRefresh (Some 1000) 21000 = 0
   \<and> getSecondsUntilNextRefresh (Some 1000) 1000 = 20
   \<and> getQRStatus 6500 False ((sample_system [sample_meeting])\<lparr>lastRefreshedAt := Some 1000\<rparr>)
        (GoodId 1)
       = Inr \<lparr>st_qrCode = None, st_qrData = None, st_isActive = False, st_qrPaused = False,
              secondsRemaining = 15, refreshInterval = 20\<rparr>"
  using seconds_until_next_refresh [of 6500 1000 "Some 1000" 1
      "(sample_system [sample_meeting])\<lparr>lastRefreshedAt := Some 1000\<rparr>" sample_meeting]
    seconds_until_next_refresh [of 21000 1000 "Some 1000" 1
      "(sample_system [sample_meeting])\<lparr>lastRefreshedAt := Some 1000\<rparr>" sample_meeting]
    seconds_until_next_refresh [of 1000 1000 "Some 1000" 1
      "(sample_system [sample_meeting])\<lparr>lastRefreshedAt := Some 1000\<rparr>" sample_meeting]
  by (simp add: QR_REFRESH_INTERVAL_def sample_system_def sample_meeting_def)

text \<open>
  Claim C10 as stated fails: it bounds the value by the interval at every query. At a query
  whose clock reads 0 while the last rotation is recorded at instant 1000, the value is 21.
\<close>

theorem seconds_exceed_interval:
  "getSecondsUntilNextRefresh (Some 1000) 0 = 21
   \<and> \<not> getSecondsUntilNextRefresh (Some 1000) 0 \<le> QR_REFRESH_INTERVAL
   \<and> getQRStatus 0 False ((sample_system [sample_meeting])\<lparr>lastRefreshedAt := Some 1000\<rparr>)
        (GoodId 1)
       = Inr \<lparr>st_qrCode = None, st_qrData = None, st_isActive = False, st_qrPaused = False,
              secondsRemaining = 21, refreshInterval = 20\<rparr>"
  by (simp add: seconds_Some QR_REFRESH_INTERVAL_def getQRStatus_def sample_system_def
        sample_meeting_def)

section \<open>The pause toggle\<close>

text \<open>
  Claim C8, as amended. \<^verbatim>\<open>toggleQRPause\<close> flips the \<^verbatim>\<open>qrPaused\<close> flag of the meeting the
  request names and changes nothing else: every other meeting, the attendance records, the
  users and the instant \<^verbatim>\<open>lastRefreshedAt\<close> of the rotation service stay as they were, on
  the transition to paused and on the transition to resumed alike.
\<close>

theorem toggle_pause_frame:
  "lastRefreshedAt (snd (toggleQRPause fault s rid)) = lastRefreshedAt s
   \<and> attendances (snd (toggleQRPause fault s rid)) = attendances s
   \<and> users (snd (toggleQRPause fault s rid)) = users s
   \<and> map m_id (meetings (snd (toggleQRPause fault s rid))) = map m_id (meetings s)
   \<and> (\<forall>j. rid \<noteq> GoodId j
        \<longrightarrow> findById j (meetings (snd (toggleQRPause fault s rid))) = findById j (meetings s))
   \<and> (\<forall>i m. rid = GoodId i \<and> \<not> fault \<and> findById i (meetings s) = Some m
        \<longrightarrow> fst (toggleQRPause fault s rid) = Inr (\<not> qrPaused m)
            \<and> findById i (meetings (snd (toggleQRPause fault s rid)))
                = Some (m\<lparr>qrPaused := \<not> qrPaused m\<rparr>))
   \<and> (fault \<longrightarrow> snd (toggleQRPause fault s rid) = s)"
  by (auto simp: toggleQRPause_def findById_update ids_update
           split: id_input.splits option.splits)

theorem toggle_pause_frame_witness:
  "fst (toggleQRPause False (sample_system [sample_meeting\<lparr>qrPaused := True\<rparr>]) (GoodId 1))
     = Inr False
   \<and> meetings (snd (toggleQRPause False (sample_system [sample_meeting\<lparr>qrPaused := True\<rparr>])
        (GoodId 1))) = [sample_meeting]"
  using toggle_pause_frame [of False "sample_system [sample_meeting\<lparr>qrPaused := True\<rparr>]" "GoodId 1"]
  by (simp add: sample_system_def sample_meeting_def toggleQRPause_def)

text \<open>
  Claim C8 as stated fails: it has the resume transition reset the shared instant. Resuming
  the paused sample meeting, whose service last rotated at instant 0, leaves the instant at 0,
  and the countdown read 19 seconds later still shows the one second that was left.
\<close>

theorem resume_keeps_instant:
  "fst (toggleQRPause False (sample_system [sample_meeting\<lparr>qrPaused := True\<rparr>]) (GoodId 1))
     = Inr False
   \<and> lastRefreshedAt (sample_system [sample_meeting\<lparr>qrPaused := True\<rparr>]) = Some 0
   \<and> lastRefreshedAt (snd (toggleQRPause False
        (sample_system [sample_meeting\<lparr>qrPaused := True\<rparr>]) (GoodId 1))) = Some 0
   \<and> getSecondsUntilNextRefresh (lastRefreshedAt (snd (toggleQRPause False
        (sample_system [sample_meeting\<lparr>qrPaused := True\<rparr>]) (GoodId 1)))) 19000 = 1"
  by (simp add: sample_system_def sample_meeting_def toggleQRPause_def seconds_Some)

section \<open>The scheduler tick\<close>

lemma activation_update_id [simp]: "m_id (activation_update e snap m) = m_id m"
  by (simp add: activation_update_def Let_def)

lemma deactivation_update_id [simp]: "m_id (deactivation_update m) = m_id m"
  by (simp add: deactivation_update_def)

lemma activate_loop_ids:
  "map m_id (fst (fst (activate_loop e todo st))) = map m_id (fst st)"
  by (induction todo arbitrary: st) (auto simp: Let_def ids_update)

lemma deactivate_loop_ids:
  "map m_id (fst (fst (deactivate_loop e todo st))) = map m_id (fst st)"
  by (induction todo arbitrary: st) (auto simp: ids_update)

lemma tick_ids:
  "map m_id (meetings (fst (checkAndUpdateMeetings e s))) = map m_id (meetings s)"
  by (simp add: checkAndUpdateMeetings_def Let_def activate_loop_ids deactivate_loop_ids)

text \<open>A loop that activates no document with the id \<open>i\<close> leaves the document \<open>i\<close> alone.\<close>

lemma activate_loop_skips:
  assumes "\<forall>x \<in> set todo. m_id x = i \<longrightarrow> endTime x \<le> tick_now e"
  shows "findById i (fst (fst (activate_loop e todo st))) = findById i (fst st)"
  using assms
proof (induction todo arbitrary: st)
  case Nil
  then show ?case by simp
next
  case (Cons x rest)
  show ?case
  proof (cases "tick_now e < endTime x \<and> \<not> throws e (m_id x)")
    case True
    with Cons.prems have "m_id x \<noteq> i" by auto
    with True Cons show ?thesis by (simp add: Let_def findById_update)
  next
    case False
    with Cons show ?thesis by (auto simp: Let_def)
  qed
qed

lemma deactivate_loop_skips:
  assumes "\<forall>x \<in> set todo. m_id x \<noteq> i"
  shows "findById i (fst (fst (deactivate_loop e todo st))) = findById i (fst st)"
  using assms
  by (induction todo arbitrary: st) (auto simp: findById_update)

lemma tick_leaves_elapsed_dormant:
  assumes found: "findById i (meetings s) = Some m"
    and dormant: "\<not> isActive m"
    and elapsed: "endTime m \<le> tick_now e"
    and ids: "distinct (map m_id (meetings s))"
  shows "findById i (meetings (fst (checkAndUpdateMeetings e s))) = Some m"
proof (cases "findThrows e")
  case True
  with found show ?thesis by (simp add: checkAndUpdateMeetings_def)
next
  case False
  define todo where
    "todo = filter (\<lambda>m. \<not> isActive m \<and> dateTime m \<le> tick_now e) (meetings s)"
  define p1 where "p1 = activate_loop e todo (meetings s, [])"
  define todo2 where "todo2 = filter isActive (fst (fst p1))"
  define p2 where "p2 = deactivate_loop e todo2 (fst p1)"
  have "\<forall>x \<in> set todo. m_id x = i \<longrightarrow> endTime x \<le> tick_now e"
    using findById_unique [OF ids found] elapsed by (auto simp: todo_def)
  then have one: "findById i (fst (fst p1)) = Some m"
    using found by (simp add: p1_def activate_loop_skips)
  have ids1: "distinct (map m_id (fst (fst p1)))"
    using ids by (simp add: p1_def activate_loop_ids)
  have "\<forall>x \<in> set todo2. m_id x \<noteq> i"
    using findById_unique [OF ids1 one] dormant by (auto simp: todo2_def)
  then have two: "findById i (fst (fst p2)) = Some m"
    using one by (simp add: p2_def deactivate_loop_skips)
  from False one two show ?thesis
    by (simp add: checkAndUpdateMeetings_def Let_def todo_def [symmetric] p1_def [symmetric]
          todo2_def [symmetric] p2_def [symmetric])
qed

lemma endTime_duration: "duration m \<noteq> 0 \<Longrightarrow> endTime m = dateTime m + duration m * 60000"
  by (simp add: endTime_def)

text \<open>
  Claim C6. A meeting that is marked dormant (\<^verbatim>\<open>isActive: false\<close>) and whose derived end,
  start plus duration, is not after the clock of a tick is the same document after the tick,
  and after any number of further ticks at such clocks: it is never activated. The ids of the
  collection are distinct, as the primary key of the store has it, and the duration is not
  the 0 that the schema excludes (\<^verbatim>\<open>min: 5\<close>) and that the code would replace by 60.
\<close>

theorem elapsed_dormant_never_activated:
  assumes "findById i (meetings s) = Some m"
    and "\<not> isActive m"
    and "duration m \<noteq> 0"
    and "\<forall>e \<in> set es. dateTime m + duration m * 60000 \<le> tick_now e"
    and "distinct (map m_id (meetings s))"
  shows "findById i (meetings (scheduler_ticks es s)) = Some m"
  using assms
proof (induction es arbitrary: s)
  case Nil
  then show ?case by simp
next
  case (Cons e es)
  have "findById i (meetings (fst (checkAndUpdateMeetings e s))) = Some m"
    using Cons.prems by (intro tick_leaves_elapsed_dormant) (auto simp: endTime_duration)
  moreover have "distinct (map m_id (meetings (fst (checkAndUpdateMeetings e s))))"
    using Cons.prems by (simp add: tick_ids)
  ultimately show ?case using Cons by simp
qed

theorem elapsed_dormant_never_activated_witness:
  "findById 1 (meetings (scheduler_ticks
       [sample_tick 4600000 (\<lambda>i. False), sample_tick 5000000 (\<lambda>i. False)]
       (sample_system [sample_meeting, sample_meeting\<lparr>m_id := 2, dateTime := 4000000\<rparr>])))
     = Some sample_meeting
   \<and> map isActive (meetings (scheduler_ticks
       [sample_tick 4600000 (\<lambda>i. False), sample_tick 5000000 (\<lambda>i. False)]
       (sample_system [sample_meeting, sample_meeting\<lparr>m_id := 2, dateTime := 4000000\<rparr>])))
     = [False, True]"
proof -
  have "findById 1 (meetings (scheduler_ticks
       [sample_tick 4600000 (\<lambda>i. False), sample_tick 5000000 (\<lambda>i. False)]
       (sample_system [sample_meeting, sample_meeting\<lparr>m_id := 2, dateTime := 4000000\<rparr>])))
     = Some sample_meeting"
    by (rule elapsed_dormant_never_activated)
      (simp_all add: sample_system_def sample_meeting_def sample_tick_def)
  moreover have "map isActive (meetings (scheduler_ticks
       [sample_tick 4600000 (\<lambda>i. False), sample_tick 5000000 (\<lambda>i. False)]
       (sample_system [sample_meeting, sample_meeting\<lparr>m_id := 2, dateTime := 4000000\<rparr>])))
     = [False, True]"
    by (simp add: checkAndUpdateMeetings_def sample_tick_def sample_system_def
          sample_meeting_def endTime_def activation_update_def Let_def)
  ultimately show ?thesis by simp
qed

section \<open>Failures inside a tick\<close>

text \<open>
  Claim C7, at a failing input. Two dormant meetings are inside their window at the tick and
  the work on the first one throws. The scheduler tick returns without raising, but it has
  activated neither meeting and has logged the one error of the whole tick: the loop over the
  meetings has no handler of its own, so the second meeting is not processed. Without the
  failure the same tick activates both.
\<close>

theorem scheduler_failure_aborts_tick:
  "checkAndUpdateMeetings (sample_tick 2000000 (\<lambda>i. i = 1))
       (sample_system [sample_meeting, sample_meeting\<lparr>m_id := 2\<rparr>])
     = (sample_system [sample_meeting, sample_meeting\<lparr>m_id := 2\<rparr>], [ActivationServiceError])
   \<and> map isActive (meetings (fst (checkAndUpdateMeetings (sample_tick 2000000 (\<lambda>i. False))
       (sample_system [sample_meeting, sample_meeting\<lparr>m_id := 2\<rparr>])))) = [True, True]
   \<and> snd (checkAndUpdateMeetings (sample_tick 2000000 (\<lambda>i. False))
       (sample_system [sample_meeting, sample_meeting\<lparr>m_id := 2\<rparr>]))
     = [Activated 1, Activated 2]"
  by (simp add: checkAndUpdateMeetings_def sample_tick_def sample_system_def sample_meeting_def
        endTime_def activation_update_def Let_def)

text \<open>
  The rotation tick does isolate its failures: a selected meeting whose own update does not
  throw gets its new token whatever happens to the others, and the instant of the tick is
  recorded.
\<close>

lemma refresh_one_find:
  "findById j (fst (refresh_one e st i))
     = (if i = j \<and> \<not> throws e j then map_option (rotated e j) (findById j (fst st))
        else findById j (fst st))"
  by (auto simp: refresh_one_def Let_def findById_update rotated_def [abs_def])

lemma rotated_twice: "rotated e j (rotated e j m) = rotated e j m"
  by (simp add: rotated_def)

lemma refresh_fold_find:
  "findById j (fst (foldl (refresh_one e) st sel))
     = (if j \<in> set sel \<and> \<not> throws e j then map_option (rotated e j) (findById j (fst st))
        else findById j (fst st))"
proof (induction sel arbitrary: st)
  case Nil
  then show ?case by simp
next
  case (Cons x xs)
  show ?case
    by (simp add: Cons.IH refresh_one_find option.map_comp comp_def rotated_twice)
qed

lemma refresh_tick_rotates:
  assumes "\<not> findThrows e" and "findById j (meetings s) = Some m"
    and "qrCode m \<noteq> None" and "\<not> qrPaused m" and "\<not> throws e j"
  shows "findById j (meetings (fst (refreshQRCodes e s))) = Some (rotated e j m)"
proof -
  define sel where
    "sel = map m_id (filter (\<lambda>m. qrCode m \<noteq> None \<and> \<not> qrPaused m) (meetings s))"
  from assms(2) have "m \<in> set (meetings s)" "m_id m = j"
    by (simp_all add: findById_in_set)
  with assms(3,4) have sel: "j \<in> set sel"
    unfolding sel_def by force
  then have ne: "sel \<noteq> []"
    by auto
  show ?thesis
    unfolding refreshQRCodes_def Let_def sel_def [symmetric]
    using assms(1,2,5) sel ne
    by (simp add: refresh_fold_find)
qed

lemma refresh_tick_instant:
  "\<not> findThrows e \<Longrightarrow> lastRefreshedAt (fst (refreshQRCodes e s)) = Some (tick_now e)"
  by (simp add: refreshQRCodes_def Let_def)

section \<open>The validator: freshness of the token\<close>

lemmas scan_stages = scan_meeting_def scan_window_def scan_user_def scan_geofence_def
  scan_existing_def scan_create_def Attendance_create_def

lemmas mark_stages = mark_meeting_def mark_user_def mark_existing_def mark_create_def
  Attendance_create_def

lemma scan_window_not_expired:
  "scan_window e s m req = Inl r \<Longrightarrow> error_of r \<noteq> Some ExpiredQR"
  by (auto simp: scan_window_def scan_user_def scan_geofence_def scan_existing_def Let_def
        split: if_splits option.splits)

lemma scan_create_no_code:
  "error_of (fst (scan_create e s r)) \<in> {None, Some InternalError}"
  by (simp add: scan_create_def Attendance_create_def)

lemma rotated_token [simp]: "stored_token (rotated te i m) = Some (randomBytes te i)"
  by (simp add: stored_token_def rotated_def)

text \<open>
  Claim C3. A QR submission whose payload gives a meeting id and a token, and whose meeting
  exists, is answered \<^verbatim>\<open>ExpiredQR\<close> whenever the token differs from the one in the stored
  \<^verbatim>\<open>qrData\<close> of the meeting, and is never answered \<^verbatim>\<open>ExpiredQR\<close> when the two are equal.
  In particular, once a rotation tick has given the meeting a new token, any token other than
  the new one, the token of the tick before included, is answered \<^verbatim>\<open>ExpiredQR\<close>: there is
  no grace window. The store is not written.
\<close>

theorem scan_token_freshness:
  assumes "req_qrData req = QrObject (GoodId i) tok"
    and "tok \<noteq> []"
    and "\<not> dbThrows e FindMeeting"
    and "findById i (meetings s) = Some m"
  shows "(stored_token m \<noteq> Some tok
            \<longrightarrow> scanQRAttendance e s req = (Failure 400 ExpiredQR QrExpired, s))
       \<and> (stored_token m = Some tok
            \<longrightarrow> error_of (fst (scanQRAttendance e s req)) \<noteq> Some ExpiredQR)
       \<and> (qrCode m \<noteq> None \<and> \<not> qrPaused m \<and> \<not> findThrows te \<and> \<not> throws te i
            \<and> randomBytes te i \<noteq> tok
            \<longrightarrow> scanQRAttendance e (fst (refreshQRCodes te s)) req
                  = (Failure 400 ExpiredQR QrExpired, fst (refreshQRCodes te s)))"
proof (intro conjI impI)
  assume "stored_token m \<noteq> Some tok"
  with assms show "scanQRAttendance e s req = (Failure 400 ExpiredQR QrExpired, s)"
    by (simp add: scanQRAttendance_def scanQR_check_def scan_meeting_def)
next
  assume eq: "stored_token m = Some tok"
  show "error_of (fst (scanQRAttendance e s req)) \<noteq> Some ExpiredQR"
  proof (cases "mtype m = Offline")
    case False
    with assms eq show ?thesis
      by (simp add: scanQRAttendance_def scanQR_check_def scan_meeting_def)
  next
    case True
    with assms eq have chk: "scanQR_check e s req = scan_window e s m req"
      by (simp add: scanQR_check_def scan_meeting_def)
    show ?thesis
    proof (cases "scan_window e s m req")
      case (Inl r)
      with chk scan_window_not_expired [OF Inl] show ?thesis
        by (simp add: scanQRAttendance_def)
    next
      case (Inr rec)
      with chk scan_create_no_code [of e s rec] show ?thesis
        by (auto simp: scanQRAttendance_def)
    qed
  qed
next
  assume a: "qrCode m \<noteq> None \<and> \<not> qrPaused m \<and> \<not> findThrows te \<and> \<not> throws te i
            \<and> randomBytes te i \<noteq> tok"
  then have "findById i (meetings (fst (refreshQRCodes te s))) = Some (rotated te i m)"
    using assms(4) by (intro refresh_tick_rotates) auto
  with assms a show "scanQRAttendance e (fst (refreshQRCodes te s)) req
                  = (Failure 400 ExpiredQR QrExpired, fst (refreshQRCodes te s))"
    by (simp add: scanQRAttendance_def scanQR_check_def scan_meeting_def)
qed

theorem scan_token_freshness_witness:
  "fst (scanQRAttendance (sample_env 2000000 ''alice'')
          (sample_system [sample_meeting\<lparr>qrCode := sample_qr ''a0'', qrData := sample_qr ''a0''\<rparr>])
          (sample_scan ''zz'' None None)) = Failure 400 ExpiredQR QrExpired
   \<and> fst (scanQRAttendance (sample_env 2000000 ''alice'')
          (sample_system [sample_meeting\<lparr>qrCode := sample_qr ''a0'', qrData := sample_qr ''a0''\<rparr>])
          (sample_scan ''a0'' None None)) = Success 201 False (MeetingInfo 1)
   \<and> fst (scanQRAttendance (sample_env 2000000 ''alice'')
          (fst (refreshQRCodes (sample_tick 1999000 (\<lambda>i. False))
            (sample_system [sample_meeting\<lparr>qrCode := sample_qr ''a0'', qrData := sample_qr ''a0''\<rparr>])))
          (sample_scan ''a0'' None None)) = Failure 400 ExpiredQR QrExpired"
proof -
  let ?m = "sample_meeting\<lparr>qrCode := sample_qr ''a0'', qrData := sample_qr ''a0''\<rparr>"
  have found: "findById 1 (meetings (sample_system [?m])) = Some ?m"
    by (simp add: sample_system_def sample_meeting_def)
  have nf: "\<not> dbThrows (sample_env 2000000 ''alice'') FindMeeting"
    by (simp add: sample_env_def)
  have one: "fst (scanQRAttendance (sample_env 2000000 ''alice'') (sample_system [?m])
          (sample_scan ''zz'' None None)) = Failure 400 ExpiredQR QrExpired"
    using scan_token_freshness [of "sample_scan ''zz'' None None" 1 "''zz''"
        "sample_env 2000000 ''alice''" "sample_system [?m]" ?m "sample_tick 1999000 (\<lambda>i. False)"]
      found nf
    by (simp add: sample_scan_def stored_token_def sample_qr_def sample_meeting_def)
  have three: "fst (scanQRAttendance (sample_env 2000000 ''alice'')
          (fst (refreshQRCodes (sample_tick 1999000 (\<lambda>i. False)) (sample_system [?m])))
          (sample_scan ''a0'' None None)) = Failure 400 ExpiredQR QrExpired"
    using scan_token_freshness [of "sample_scan ''a0'' None None" 1 "''a0''"
        "sample_env 2000000 ''alice''" "sample_system [?m]" ?m "sample_tick 1999000 (\<lambda>i. False)"]
      found nf
    by (simp add: sample_scan_def sample_qr_def sample_meeting_def sample_tick_def)
  have two: "fst (scanQRAttendance (sample_env 2000000 ''alice'') (sample_system [?m])
          (sample_scan ''a0'' None None)) = Success 201 False (MeetingInfo 1)"
    by (simp add: scanQRAttendance_def scanQR_check_def scan_stages sample_env_def
          sample_system_def sample_meeting_def sample_scan_def sample_qr_def stored_token_def
          endTime_def findOne_attendance_def record_location_def)
  from one two three show ?thesis by simp
qed

section \<open>The validator: order of the freshness and channel checks\<close>

text \<open>
  Claim C5, as amended. In \<^verbatim>\<open>scanQRAttendance\<close> the comparison of the token comes before
  the check of the meeting type: a QR submission that resolves to an online meeting is
  answered \<^verbatim>\<open>ExpiredQR\<close> unless its token equals the token in the stored \<^verbatim>\<open>qrData\<close> of that
  meeting, and \<^verbatim>\<open>BadRequest\<close> only when the two are equal. A link submission that resolves
  to an offline meeting is answered \<^verbatim>\<open>BadRequest\<close>. Neither writes the store.
\<close>

theorem channel_check_after_freshness:
  "(req_qrData req = QrObject (GoodId i) tok \<and> tok \<noteq> [] \<and> \<not> dbThrows e FindMeeting
      \<and> findById i (meetings s) = Some m \<and> mtype m = Online
     \<longrightarrow> scanQRAttendance e s req
          = (if stored_token m = Some tok then Failure 400 BadRequest QrOfflineOnly
             else Failure 400 ExpiredQR QrExpired, s))
   \<and> (param_token mreq \<noteq> [] \<and> trim (param_token mreq) \<noteq> [] \<and> \<not> dbThrows e FindMeeting
      \<and> findOne_by_token (param_token mreq) (meetings s) = Some m' \<and> mtype m' = Offline
     \<longrightarrow> markAttendance e s mreq = (Failure 400 BadRequest LinkOnlineOnly, s))"
  by (simp add: scanQRAttendance_def scanQR_check_def scan_meeting_def
        markAttendance_def mark_check_def mark_meeting_def)

theorem channel_check_after_freshness_witness:
  "scanQRAttendance (sample_env 2000000 ''alice'')
       (sample_system [sample_meeting\<lparr>mtype := Online, qrData := sample_qr ''a0''\<rparr>])
       (sample_scan ''a0'' None None)
     = (Failure 400 BadRequest QrOfflineOnly,
        sample_system [sample_meeting\<lparr>mtype := Online, qrData := sample_qr ''a0''\<rparr>])
   \<and> markAttendance (sample_env 2000000 ''alice'')
       (sample_system [sample_meeting\<lparr>attendanceToken := code_units ''link''\<rparr>]) (sample_mark ''link'')
     = (Failure 400 BadRequest LinkOnlineOnly,
        sample_system [sample_meeting\<lparr>attendanceToken := code_units ''link''\<rparr>])"
  using channel_check_after_freshness [of "sample_scan ''a0'' None None" 1 "''a0''"
      "sample_env 2000000 ''alice''"
      "sample_system [sample_meeting\<lparr>mtype := Online, qrData := sample_qr ''a0''\<rparr>]"
      "sample_meeting\<lparr>mtype := Online, qrData := sample_qr ''a0''\<rparr>"]
    channel_check_after_freshness [of _ _ _ "sample_env 2000000 ''alice''"
      "sample_system [sample_meeting\<lparr>attendanceToken := code_units ''link''\<rparr>]" _
      "sample_mark ''link''" "sample_meeting\<lparr>attendanceToken := code_units ''link''\<rparr>"]
  by (simp add: sample_scan_def sample_env_def sample_system_def sample_meeting_def
        sample_qr_def stored_token_def sample_mark_def findOne_by_token_def trim_def
        js_whitespace_def code_units_def)

text \<open>
  Claim C5 as stated fails: a QR submission against an online meeting, which has an
  attendance link and no QR, is answered \<^verbatim>\<open>ExpiredQR\<close>, not \<^verbatim>\<open>BadRequest\<close>.
\<close>

theorem token_scan_of_link_event_is_expired:
  "mtype (sample_meeting\<lparr>mtype := Online, attendanceToken := code_units ''link''\<rparr>) = Online
   \<and> scanQRAttendance (sample_env 2000000 ''alice'')
       (sample_system [sample_meeting\<lparr>mtype := Online, attendanceToken := code_units ''link''\<rparr>])
       (sample_scan ''a0'' None None)
     = (Failure 400 ExpiredQR QrExpired,
        sample_system [sample_meeting\<lparr>mtype := Online, attendanceToken := code_units ''link''\<rparr>])
   \<and> error_of (fst (scanQRAttendance (sample_env 2000000 ''alice'')
       (sample_system [sample_meeting\<lparr>mtype := Online, attendanceToken := code_units ''link''\<rparr>])
       (sample_scan ''a0'' None None))) \<noteq> Some BadRequest"
  by (simp add: scanQRAttendance_def scanQR_check_def scan_meeting_def sample_scan_def
        sample_env_def sample_system_def sample_meeting_def stored_token_def)

section \<open>The validator: time window\<close>






lemma with_flags_simps [simp]:
  "users (with_flags b s) = users s"
  "attendances (with_flags b s) = attendances s"
  "lastRefreshedAt (with_flags b s) = lastRefreshedAt s"
  "meetings (with_flags b s) = map (\<lambda>x. x\<lparr>isActive := b x\<rparr>) (meetings s)"
  by (simp_all add: with_flags_def)

lemma endTime_flags [simp]: "endTime (m\<lparr>isActive := c\<rparr>) = endTime m"
  by (simp add: endTime_def)

lemma isAllowed_flags [simp]: "isAllowed (m\<lparr>isActive := c\<rparr>) u = isAllowed m u"
  by (simp add: isAllowed_def)

lemma stored_token_flags [simp]: "stored_token (m\<lparr>isActive := c\<rparr>) = stored_token m"
  by (simp add: stored_token_def)

















section \<open>The validator: geofence\<close>

subsection \<open>Rounding to a double\<close>

lemma rne_near: "\<bar>x - of_int n\<bar> < 1 / 2 \<Longrightarrow> rne x = n"
proof -
  assume a: "\<bar>x - of_int n\<bar> < 1 / 2"
  show ?thesis
  proof (cases "of_int n \<le> x")
    case True
    with a have "\<lfloor>x\<rfloor> = n" by (intro floor_unique) auto
    with a True show ?thesis by (simp add: rne_def Let_def)
  next
    case False
    with a have f: "\<lfloor>x\<rfloor> = n - 1" by (intro floor_unique) auto
    with a False have "1 / 2 < x - of_int \<lfloor>x\<rfloor>" by simp
    with f show ?thesis by (simp add: rne_def Let_def)
  qed
qed

text \<open>
  A real \<open>x\<close> in the binade whose doubles are the multiples of \<open>u\<close>, and nearer than half of
  \<open>u\<close> to the multiple \<open>y\<close>, rounds to \<open>y\<close>.
\<close>

lemma fl_binade:
  assumes "y = of_int n * u" and "u = 2 powr of_int j"
    and "2 ^ 52 * u \<le> \<bar>x\<bar>" and "\<bar>x\<bar> < 2 ^ 53 * u"
    and "\<bar>x - y\<bar> < u / 2"
  shows "fl x = y"
proof -
  have u: "0 < u" using assms(2) by simp
  with assms(3) have x: "x \<noteq> 0" "0 < \<bar>x\<bar>"
    by (auto simp: zero_less_mult_iff intro: less_le_trans [of 0 "2 ^ 52 * u"])
  have "2 ^ 52 * u = 2 powr (of_int j + 52)" "2 ^ 53 * u = 2 powr (of_int j + 53)"
    using assms(2) by (simp_all add: powr_add powr_numeral mult.commute)
  with assms(3,4) have "2 powr (of_int j + 52) \<le> \<bar>x\<bar>" "\<bar>x\<bar> < 2 powr (of_int j + 53)"
    by simp_all
  then have "of_int j + 52 \<le> log 2 \<bar>x\<bar>" "log 2 \<bar>x\<bar> < of_int j + 53"
    using x by (simp_all add: le_log_iff log_less_iff)
  then have "\<lfloor>log 2 \<bar>x\<bar>\<rfloor> = j + 52"
    by (intro floor_unique) auto
  then have e: "2 powr (of_int \<lfloor>log 2 \<bar>x\<bar>\<rfloor> - 52) = u"
    using assms(2) by simp
  have "\<bar>x / u - of_int n\<bar> = \<bar>x - y\<bar> / u"
    using u assms(1) by (simp add: field_simps abs_mult abs_divide)
  also have "\<dots> < 1 / 2"
    using u assms(5) by (simp add: field_simps)
  finally have "rne (x / u) = n" by (rule rne_near)
  with x e assms(1) show ?thesis by (simp add: fl_def Let_def)
qed

lemma fl_eqI':
  assumes "y = of_int n / 2 ^ k"
    and "2 ^ 52 / 2 ^ k \<le> \<bar>x\<bar>" and "\<bar>x\<bar> < 2 ^ 53 / 2 ^ k"
    and "\<bar>x - y\<bar> < 1 / 2 ^ k / 2"
  shows "fl x = y"
proof (rule fl_binade [where n = n and u = "1 / 2 ^ k" and j = "- int k"])
  show "1 / 2 ^ k = 2 powr real_of_int (- int k)"
    by (simp add: powr_minus powr_realpow inverse_eq_divide)
qed (use assms in simp_all)

subsection \<open>Sine and cosine by their Maclaurin polynomials\<close>

text \<open>
  The sine and the cosine of a rational argument differ from a Maclaurin polynomial, a
  rational number, by less than the first omitted term. Where the polynomial is nearer to a
  double than half a unit in the last place, with that margin to spare, this is the rounded
  value.
\<close>

lemma near_trans:
  "\<bar>s - p\<bar> \<le> e \<Longrightarrow> e < a \<Longrightarrow> \<bar>p - y\<bar> < b \<Longrightarrow> a + b \<le> c \<Longrightarrow> \<bar>s - y\<bar> < (c::real)"
  by linarith

lemma near_bounds:
  "\<bar>s - y\<bar> < d \<Longrightarrow> lo \<le> \<bar>y\<bar> - d \<Longrightarrow> \<bar>y\<bar> + d \<le> hi \<Longrightarrow> lo \<le> \<bar>s\<bar> \<and> \<bar>s\<bar> < (hi::real)"
  by linarith

lemma near_minus_one:
  "- 1 < s \<Longrightarrow> \<bar>s - (- 1)\<bar> < d \<Longrightarrow> d \<le> 1 / 2 \<Longrightarrow> 1 / 2 \<le> \<bar>s\<bar> \<and> \<bar>s\<bar> < (1::real)"
  by linarith

lemma sum_numeral:
  "(\<Sum>m<numeral k. f m) = (\<Sum>m<pred_numeral k. f m) + (f (pred_numeral k) :: real)"
  by (simp add: numeral_eq_Suc)

lemma sin_poly13:
  "(\<Sum>m<13. sin_coeff m * (x::real) ^ m)
     = x - x ^ 3 / 6 + x ^ 5 / 120 - x ^ 7 / 5040 + x ^ 9 / 362880 - x ^ 11 / 39916800"
  by (simp add: sum_numeral sin_coeff_def fact_numeral)

lemma sin_near13:
  "\<bar>sin (x::real) - (x - x ^ 3 / 6 + x ^ 5 / 120 - x ^ 7 / 5040 + x ^ 9 / 362880 - x ^ 11 / 39916800)\<bar>
     \<le> \<bar>x\<bar> ^ 13 / 6227020800"
  using Maclaurin_sin_bound [of x 13] unfolding sin_poly13
  by (simp add: fact_numeral inverse_eq_divide)

lemma sin_poly27:
  "(\<Sum>m<27. sin_coeff m * (x::real) ^ m)
     = x - x ^ 3 / 6 + x ^ 5 / 120 - x ^ 7 / 5040 + x ^ 9 / 362880 - x ^ 11 / 39916800 + x ^ 13 / 6227020800 - x ^ 15 / 1307674368000 + x ^ 17 / 355687428096000 - x ^ 19 / 121645100408832000 + x ^ 21 / 51090942171709440000 - x ^ 23 / 25852016738884976640000 + x ^ 25 / 15511210043330985984000000"
  by (simp add: sum_numeral sin_coeff_def fact_numeral)

lemma sin_near27:
  "\<bar>sin (x::real) - (x - x ^ 3 / 6 + x ^ 5 / 120 - x ^ 7 / 5040 + x ^ 9 / 362880 - x ^ 11 / 39916800 + x ^ 13 / 6227020800 - x ^ 15 / 1307674368000 + x ^ 17 / 355687428096000 - x ^ 19 / 121645100408832000 + x ^ 21 / 51090942171709440000 - x ^ 23 / 25852016738884976640000 + x ^ 25 / 15511210043330985984000000)\<bar>
     \<le> \<bar>x\<bar> ^ 27 / 10888869450418352160768000000"
  using Maclaurin_sin_bound [of x 27] unfolding sin_poly27
  by (simp add: fact_numeral inverse_eq_divide)

lemma Maclaurin_cos_bound:
  "\<bar>cos x - (\<Sum>m<n. cos_coeff m * x ^ m)\<bar> \<le> \<bar>x\<bar> ^ n / fact n"
proof -
  from Maclaurin_cos_expansion [of x n] obtain t where
    "cos x = (\<Sum>m<n. cos_coeff m * x ^ m) + (cos (t + 1 / 2 * real n * pi) / fact n) * x ^ n"
    by blast
  then have "\<bar>cos x - (\<Sum>m<n. cos_coeff m * x ^ m)\<bar>
      = \<bar>cos (t + 1 / 2 * real n * pi)\<bar> * (\<bar>x\<bar> ^ n / fact n)"
    by (simp add: abs_mult power_abs)
  also have "\<dots> \<le> 1 * (\<bar>x\<bar> ^ n / fact n)"
    by (rule mult_right_mono) simp_all
  finally show ?thesis by simp
qed

lemma cos_poly14:
  "(\<Sum>m<14. cos_coeff m * (x::real) ^ m)
     = 1 - x ^ 2 / 2 + x ^ 4 / 24 - x ^ 6 / 720 + x ^ 8 / 40320 - x ^ 10 / 3628800 + x ^ 12 / 479001600"
  by (simp add: sum_numeral cos_coeff_def fact_numeral)

lemma cos_near14:
  "\<bar>cos (x::real) - (1 - x ^ 2 / 2 + x ^ 4 / 24 - x ^ 6 / 720 + x ^ 8 / 40320 - x ^ 10 / 3628800 + x ^ 12 / 479001600)\<bar>
     \<le> \<bar>x\<bar> ^ 14 / 87178291200"
  using Maclaurin_cos_bound [of x 14] unfolding cos_poly14
  by (simp add: fact_numeral)

text \<open>
  The values at the three arguments of the scan from the antipode: the sine of half the
  difference of the latitudes, the cosine of either latitude, and the sine of half the
  difference of the longitudes, which is \<open>- 1\<close> although the argument is not exactly a
  quarter turn.
\<close>

lemma sin_dLat: "fl (sin (- (5030569068109113 / 36028797018963968))) = - (5014239404989977 / 36028797018963968)"
proof -
  let ?x = "- (5030569068109113 / 36028797018963968) :: real"
  let ?y = "- (5014239404989977 / 36028797018963968) :: real"
  let ?p = "?x - ?x ^ 3 / 6 + ?x ^ 5 / 120 - ?x ^ 7 / 5040 + ?x ^ 9 / 362880 - ?x ^ 11 / 39916800"
  have h1: "\<bar>sin ?x - ?p\<bar> \<le> \<bar>?x\<bar> ^ 13 / 6227020800" by (rule sin_near13)
  have h2: "\<bar>?x\<bar> ^ 13 / 6227020800 < 1 / 2 ^ 60" by (simp add: power_divide)
  have h3: "\<bar>?p - ?y\<bar> < 1 / 2 ^ 57" by (simp add: power_divide)
  have n: "\<bar>sin ?x - ?y\<bar> < 1 / 2 ^ 56"
    by (rule near_trans [OF h1 h2 h3]) simp
  have b: "1 / 8 \<le> \<bar>sin ?x\<bar> \<and> \<bar>sin ?x\<bar> < 1 / 4"
    by (rule near_bounds [OF n]) simp_all
  show ?thesis
  proof (rule fl_eqI' [where n = "- 5014239404989977" and k = 55])
    show "\<bar>sin ?x - ?y\<bar> < 1 / 2 ^ 55 / 2" using n by simp
    show "2 ^ 52 / 2 ^ 55 \<le> \<bar>sin ?x\<bar>" using b by simp
    show "\<bar>sin ?x\<bar> < 2 ^ 53 / 2 ^ 55" using b by simp
  qed simp
qed

lemma cos_lat: "fl (cos (5030569068109113 / 36028797018963968)) = (4459770905381437 / 4503599627370496)"
proof -
  let ?x = "(5030569068109113 / 36028797018963968) :: real"
  let ?y = "(4459770905381437 / 4503599627370496) :: real"
  let ?p = "1 - ?x ^ 2 / 2 + ?x ^ 4 / 24 - ?x ^ 6 / 720 + ?x ^ 8 / 40320 - ?x ^ 10 / 3628800 + ?x ^ 12 / 479001600"
  have h1: "\<bar>cos ?x - ?p\<bar> \<le> \<bar>?x\<bar> ^ 14 / 87178291200" by (rule cos_near14)
  have h2: "\<bar>?x\<bar> ^ 14 / 87178291200 < 1 / 2 ^ 60" by (simp add: power_divide)
  have h3: "\<bar>?p - ?y\<bar> < 27 / 2 ^ 59" by (simp add: power_divide)
  have n: "\<bar>cos ?x - ?y\<bar> < 1 / 2 ^ 54"
    by (rule near_trans [OF h1 h2 h3]) simp
  have b: "1 / 2 \<le> \<bar>cos ?x\<bar> \<and> \<bar>cos ?x\<bar> < 1"
    by (rule near_bounds [OF n]) simp_all
  show ?thesis
  proof (rule fl_eqI' [where n = "8919541810762874" and k = 53])
    show "\<bar>cos ?x - ?y\<bar> < 1 / 2 ^ 53 / 2" using n by simp
    show "2 ^ 52 / 2 ^ 53 \<le> \<bar>cos ?x\<bar>" using b by simp
    show "\<bar>cos ?x\<bar> < 2 ^ 53 / 2 ^ 53" using b by simp
  qed simp
qed

lemma sin_dLng: "fl (sin (- (884279719003555 / 562949953421312))) = - 1"
proof -
  let ?x = "- (884279719003555 / 562949953421312) :: real"
  let ?p = "?x - ?x ^ 3 / 6 + ?x ^ 5 / 120 - ?x ^ 7 / 5040 + ?x ^ 9 / 362880 - ?x ^ 11 / 39916800 + ?x ^ 13 / 6227020800 - ?x ^ 15 / 1307674368000 + ?x ^ 17 / 355687428096000 - ?x ^ 19 / 121645100408832000 + ?x ^ 21 / 51090942171709440000 - ?x ^ 23 / 25852016738884976640000 + ?x ^ 25 / 15511210043330985984000000"
  have h1: "\<bar>sin ?x - ?p\<bar> \<le> \<bar>?x\<bar> ^ 27 / 10888869450418352160768000000" by (rule sin_near27)
  have h2: "\<bar>?x\<bar> ^ 27 / 10888869450418352160768000000 < 1 / 2 ^ 60" by (simp add: power_divide)
  have h3: "\<bar>?p - (- 1)\<bar> < 1 / 2 ^ 60" by (simp add: power_divide)
  have n: "\<bar>sin ?x - (- 1)\<bar> < 1 / 2 ^ 59"
    by (rule near_trans [OF h1 h2 h3]) simp
  show ?thesis
  proof (cases "sin ?x = - 1")
    case True
    have "fl (- 1) = - 1"
      by (rule fl_eqI' [where n = "- 4503599627370496" and k = 52]) simp_all
    with True show ?thesis by simp
  next
    case False
    have "- 1 \<le> sin ?x" by (rule sin_ge_minus_one)
    with False have lt: "- 1 < sin ?x" by (metis less_le)
    have b: "1 / 2 \<le> \<bar>sin ?x\<bar> \<and> \<bar>sin ?x\<bar> < 1"
      by (rule near_minus_one [OF lt n]) simp
    show ?thesis
    proof (rule fl_eqI' [where n = "- 9007199254740992" and k = 53])
      show "\<bar>sin ?x - (- 1)\<bar> < 1 / 2 ^ 53 / 2" using n by simp
      show "2 ^ 52 / 2 ^ 53 \<le> \<bar>sin ?x\<bar>" using b by simp
      show "\<bar>sin ?x\<bar> < 2 ^ 53 / 2 ^ 53" using b by simp
    qed simp
  qed
qed

subsection \<open>A scan from the antipode of the fence\<close>

text \<open>
  The fence is centred at (8, 80.5) and the scan comes from (-8, -99.5), the opposite point
  of the sphere: the great-circle distance is half the circumference, \<open>6371000 * pi\<close> metres.
\<close>

lemma great_circle_antipode: "great_circle (- 8) (- (199 / 2)) 8 (161 / 2) = 6371000 * pi"
proof -
  have a: "radians (- 8 - 8) / 2 = - radians 8"
    by (simp add: radians_def)
  have b: "radians (- (199 / 2) - 161 / 2) / 2 = - (pi / 2)"
    by (simp add: radians_def)
  have "hav (- 8) (- (199 / 2)) 8 (161 / 2) = (sin (radians 8))\<^sup>2 + (cos (radians 8))\<^sup>2"
    unfolding hav_def a b by (simp add: radians_def power2_eq_square)
  then have "hav (- 8) (- (199 / 2)) 8 (161 / 2) = 1"
    by simp
  then show ?thesis by (simp add: great_circle_def)
qed

text \<open>
  In the sample arithmetic the sum \<open>a\<close> of the formula comes out one unit in the last place
  above 1, the square root of \<open>1 - a\<close> is not a number, and neither is the distance.
\<close>

lemma haversine_antipode: "haversine ieee (- 8) (- (199 / 2)) 8 (161 / 2) = NaN"
proof -
  have pi: "Math_PI ieee = Num (884279719003555 / 281474976710656)"
    by (simp add: ieee_def)
  have a1: "js_sub ieee (Num (- 8)) (Num (8)) = Num (- 16)"
  proof -
    have "fl (- 16) = - 16"
      by (rule fl_eqI' [where n = "- 4503599627370496" and k = 48]) simp_all
    then show ?thesis by (simp add: ieee_def)
  qed
  have a2: "js_mul ieee (Num (- 16)) (Num (884279719003555 / 281474976710656)) = Num (- (884279719003555 / 17592186044416))"
  proof -
    have "fl (- (884279719003555 / 17592186044416)) = - (884279719003555 / 17592186044416)"
      by (rule fl_eqI' [where n = "- 7074237752028440" and k = 47]) simp_all
    then show ?thesis by (simp add: ieee_def)
  qed
  have a3: "js_div ieee (Num (- (884279719003555 / 17592186044416))) (Num (180)) = Num (- (5030569068109113 / 18014398509481984))"
  proof -
    have "fl (- (176855943800711 / 633318697598976)) = - (5030569068109113 / 18014398509481984)"
      by (rule fl_eqI' [where n = "- 5030569068109113" and k = 54]) simp_all
    then show ?thesis by (simp add: ieee_def)
  qed
  have a4: "js_div ieee (Num (- (5030569068109113 / 18014398509481984))) (Num (2)) = Num (- (5030569068109113 / 36028797018963968))"
  proof -
    have "fl (- (5030569068109113 / 36028797018963968)) = - (5030569068109113 / 36028797018963968)"
      by (rule fl_eqI' [where n = "- 5030569068109113" and k = 55]) simp_all
    then show ?thesis by (simp add: ieee_def)
  qed
  have a5: "js_pow ieee (Num (- (5014239404989977 / 36028797018963968))) (Num 2) = Num (1395694493897217 / 72057594037927936)"
  proof -
    have "fl (25142596810554238581887470460529 / 1298074214633706907132624082305024) = 1395694493897217 / 72057594037927936"
      by (rule fl_eqI' [where n = "5582777975588868" and k = 58]) simp_all
    then show ?thesis by (simp add: ieee_def)
  qed
  have b1: "js_mul ieee (Num (8)) (Num (884279719003555 / 281474976710656)) = Num (884279719003555 / 35184372088832)"
  proof -
    have "fl (884279719003555 / 35184372088832) = 884279719003555 / 35184372088832"
      by (rule fl_eqI' [where n = "7074237752028440" and k = 48]) simp_all
    then show ?thesis by (simp add: ieee_def)
  qed
  have b2: "js_div ieee (Num (884279719003555 / 35184372088832)) (Num (180)) = Num (5030569068109113 / 36028797018963968)"
  proof -
    have "fl (176855943800711 / 1266637395197952) = 5030569068109113 / 36028797018963968"
      by (rule fl_eqI' [where n = "5030569068109113" and k = 55]) simp_all
    then show ?thesis by (simp add: ieee_def)
  qed
  have b3: "js_mul ieee (Num (- 8)) (Num (884279719003555 / 281474976710656)) = Num (- (884279719003555 / 35184372088832))"
  proof -
    have "fl (- (884279719003555 / 35184372088832)) = - (884279719003555 / 35184372088832)"
      by (rule fl_eqI' [where n = "- 7074237752028440" and k = 48]) simp_all
    then show ?thesis by (simp add: ieee_def)
  qed
  have b4: "js_div ieee (Num (- (884279719003555 / 35184372088832))) (Num (180)) = Num (- (5030569068109113 / 36028797018963968))"
  proof -
    have "fl (- (176855943800711 / 1266637395197952)) = - (5030569068109113 / 36028797018963968)"
      by (rule fl_eqI' [where n = "- 5030569068109113" and k = 55]) simp_all
    then show ?thesis by (simp add: ieee_def)
  qed
  have b5: "js_mul ieee (Num (4459770905381437 / 4503599627370496)) (Num (4459770905381437 / 4503599627370496)) = Num (8832737443003841 / 9007199254740992)"
  proof -
    have "fl (19889556528486762294526464184969 / 20282409603651670423947251286016) = 8832737443003841 / 9007199254740992"
      by (rule fl_eqI' [where n = "8832737443003841" and k = 53]) simp_all
    then show ?thesis by (simp add: ieee_def)
  qed
  have g1: "js_sub ieee (Num (- (199 / 2))) (Num (161 / 2)) = Num (- 180)"
  proof -
    have "fl (- 180) = - 180"
      by (rule fl_eqI' [where n = "- 6333186975989760" and k = 45]) simp_all
    then show ?thesis by (simp add: ieee_def)
  qed
  have g2: "js_mul ieee (Num (- 180)) (Num (884279719003555 / 281474976710656)) = Num (- (4974073419394997 / 8796093022208))"
  proof -
    have "fl (- (39792587355159975 / 70368744177664)) = - (4974073419394997 / 8796093022208)"
      by (rule fl_eqI' [where n = "- 4974073419394997" and k = 43]) simp_all
    then show ?thesis by (simp add: ieee_def)
  qed
  have g3: "js_div ieee (Num (- (4974073419394997 / 8796093022208))) (Num (180)) = Num (- (884279719003555 / 281474976710656))"
  proof -
    have "fl (- (4974073419394997 / 1583296743997440)) = - (884279719003555 / 281474976710656)"
      by (rule fl_eqI' [where n = "- 7074237752028440" and k = 51]) simp_all
    then show ?thesis by (simp add: ieee_def)
  qed
  have g4: "js_div ieee (Num (- (884279719003555 / 281474976710656))) (Num (2)) = Num (- (884279719003555 / 562949953421312))"
  proof -
    have "fl (- (884279719003555 / 562949953421312)) = - (884279719003555 / 562949953421312)"
      by (rule fl_eqI' [where n = "- 7074237752028440" and k = 52]) simp_all
    then show ?thesis by (simp add: ieee_def)
  qed
  have g5: "js_pow ieee (Num (- 1)) (Num 2) = Num (1)"
  proof -
    have "fl (1) = 1"
      by (rule fl_eqI' [where n = "4503599627370496" and k = 52]) simp_all
    then show ?thesis by (simp add: ieee_def)
  qed
  have t1: "js_mul ieee (Num (8832737443003841 / 9007199254740992)) (Num (1)) = Num (8832737443003841 / 9007199254740992)"
  proof -
    have "fl (8832737443003841 / 9007199254740992) = 8832737443003841 / 9007199254740992"
      by (rule fl_eqI' [where n = "8832737443003841" and k = 53]) simp_all
    then show ?thesis by (simp add: ieee_def)
  qed
  have t2: "js_add ieee (Num (1395694493897217 / 72057594037927936)) (Num (8832737443003841 / 9007199254740992)) = Num (4503599627370497 / 4503599627370496)"
  proof -
    have "fl (72057594037927945 / 72057594037927936) = 4503599627370497 / 4503599627370496"
      by (rule fl_eqI' [where n = "4503599627370497" and k = 52]) simp_all
    then show ?thesis by (simp add: ieee_def)
  qed
  have t3: "js_sub ieee (Num (1)) (Num (4503599627370497 / 4503599627370496)) = Num (- (1 / 4503599627370496))"
  proof -
    have "fl (- (1 / 4503599627370496)) = - (1 / 4503599627370496)"
      by (rule fl_eqI' [where n = "- 4503599627370496" and k = 104]) simp_all
    then show ?thesis by (simp add: ieee_def)
  qed
  have t4: "js_mul ieee (Num (6371000)) (Num (2)) = Num (12742000)"
  proof -
    have "fl (12742000) = 12742000"
      by (rule fl_eqI' [where n = "6840809160704000" and k = 29]) simp_all
    then show ?thesis by (simp add: ieee_def)
  qed
  have s1: "Math_sin ieee (Num (- (5030569068109113 / 36028797018963968))) = Num (- (5014239404989977 / 36028797018963968))"
    using sin_dLat by (simp add: ieee_def)
  have s2: "Math_sin ieee (Num (- (884279719003555 / 562949953421312))) = Num (- 1)"
    using sin_dLng by (simp add: ieee_def)
  have c1: "Math_cos ieee (Num (5030569068109113 / 36028797018963968)) = Num (4459770905381437 / 4503599627370496)"
    using cos_lat by (simp add: ieee_def)
  have c2: "Math_cos ieee (Num (- (5030569068109113 / 36028797018963968))) = Num (4459770905381437 / 4503599627370496)"
    using cos_lat by (simp add: ieee_def)
  have dLat: "toRad ieee (js_sub ieee (Num (- 8)) (Num 8)) = Num (- (5030569068109113 / 18014398509481984))"
    unfolding toRad_def a1 pi a2 a3 ..
  have dLng: "toRad ieee (js_sub ieee (Num (- (199 / 2))) (Num (161 / 2))) = Num (- (884279719003555 / 281474976710656))"
    unfolding toRad_def g1 pi g2 g3 ..
  have r8: "toRad ieee (Num 8) = Num (5030569068109113 / 36028797018963968)"
    unfolding toRad_def pi b1 b2 ..
  have rm8: "toRad ieee (Num (- 8)) = Num (- (5030569068109113 / 36028797018963968))"
    unfolding toRad_def pi b3 b4 ..
  have a: "js_add ieee
             (js_pow ieee (Math_sin ieee (js_div ieee (Num (- (5030569068109113 / 18014398509481984))) (Num 2))) (Num 2))
             (js_mul ieee
                (js_mul ieee (Math_cos ieee (Num (5030569068109113 / 36028797018963968))) (Math_cos ieee (Num (- (5030569068109113 / 36028797018963968)))))
                (js_pow ieee (Math_sin ieee (js_div ieee (Num (- (884279719003555 / 281474976710656))) (Num 2))) (Num 2)))
           = Num (4503599627370497 / 4503599627370496)"
    unfolding a4 s1 a5 c1 c2 b5 g4 s2 g5 t1 t2 ..
  have root: "Math_sqrt ieee (js_sub ieee (Num 1) (Num (4503599627370497 / 4503599627370496))) = NaN"
    unfolding t3 by (simp add: ieee_def)
  have "Math_atan2 ieee (Math_sqrt ieee (Num (4503599627370497 / 4503599627370496))) NaN = NaN"
    by (cases "Math_sqrt ieee (Num (4503599627370497 / 4503599627370496))") (simp_all add: ieee_def)
  moreover have "js_mul ieee (js_mul ieee (Num 6371000) (Num 2)) NaN = NaN"
    by (cases "js_mul ieee (Num 6371000) (Num 2)") (simp_all add: ieee_def)
  ultimately show ?thesis
    unfolding haversine_def Let_def dLat dLng r8 rm8 a root by simp
qed

subsection \<open>The check in the handler\<close>

text \<open>
  What the handler does with the distance it computed: without a latitude or a longitude it
  answers \<^verbatim>\<open>LocationRequired\<close>; it answers \<^verbatim>\<open>OutOfRange\<close>, quoting the rounded distance,
  exactly when the computed distance compares greater than the radius; otherwise, also when
  the computed distance is not a number, it goes on to the duplicate pre-check.
\<close>

lemma geofence_control:
  assumes "req_qrData req = QrObject (GoodId i) tok" and "tok \<noteq> []"
    and "\<not> dbThrows e FindMeeting" and "findById i (meetings s) = Some m"
    and "stored_token m = Some tok" and "mtype m = Offline"
    and "dateTime m \<le> req_now e" and "req_now e < endTime m"
    and "\<not> dbThrows e FindUser" and "users s (uid e) = Some u"
    and "participation m = Selected \<longrightarrow> isAllowed m u"
    and "enabled (geofencing m)"
  shows "scanQR_check e s req
       = (if req_lat req = None \<or> req_lng req = None
          then Inl (Failure 400 LocationRequired GeofenceNeedsLocation)
          else if js_gt (haversine (math e) (the (req_lat req)) (the (req_lng req))
                           (center_lat (geofencing m)) (center_lng (geofencing m)))
                        (radius (geofencing m))
          then Inl (Failure 400 OutOfRange
                      (OutsideGeofence
                         (Math_round (haversine (math e) (the (req_lat req)) (the (req_lng req))
                                        (center_lat (geofencing m)) (center_lng (geofencing m))))
                         (radius (geofencing m))))
          else scan_existing e s m u req)"
  using assms
  by (auto simp: scanQR_check_def scan_meeting_def scan_window_def scan_user_def
        scan_geofence_def Let_def)

text \<open>
  Claim C4, at a failing input. The meeting has a fence of 200 metres around (8, 80.5) and the
  scan, with the current token and inside the window, comes from (-8, -99.5). The great-circle
  distance is \<open>6371000 * pi\<close> metres, far greater than the radius, and the claim has the
  validator answer \<^verbatim>\<open>OutOfRange\<close>. In double arithmetic the distance the handler computes is
  not a number, the comparison with the radius is false, and the handler records the
  attendance and answers the fresh success.
\<close>

theorem antipode_scan_accepted:
  "great_circle (- 8) (- (199 / 2)) 8 (161 / 2) = 6371000 * pi
   \<and> radius (geofencing fenced_meeting) < great_circle (- 8) (- (199 / 2)) 8 (161 / 2)
   \<and> haversine ieee (- 8) (- (199 / 2)) 8 (161 / 2) = NaN
   \<and> scanQRAttendance (sample_env 2000000 ''alice'') (sample_system [fenced_meeting])
        (sample_scan ''a0'' (Some (- 8)) (Some (- (199 / 2))))
       = (Success 201 False (MeetingInfo 1),
          (sample_system [fenced_meeting])
            \<lparr>attendances :=
               [\<lparr>meeting = 1, user = 11, att_method = Qr, markedAt = 2000000,
                 att_location = Some \<lparr>lat = - 8, lng = - (199 / 2), accuracy = None\<rparr>\<rparr>]\<rparr>)"
proof -
  have far: "radius (geofencing fenced_meeting) < 6371000 * pi"
    using pi_ge_two by (simp add: fenced_meeting_def)
  have "scanQR_check (sample_env 2000000 ''alice'') (sample_system [fenced_meeting])
          (sample_scan ''a0'' (Some (- 8)) (Some (- (199 / 2))))
        = scan_existing (sample_env 2000000 ''alice'') (sample_system [fenced_meeting])
            fenced_meeting 11 (sample_scan ''a0'' (Some (- 8)) (Some (- (199 / 2))))"
    by (subst geofence_control [where i = 1 and tok = "''a0''" and m = fenced_meeting and u = 11])
      (simp_all add: sample_env_def sample_system_def sample_scan_def fenced_meeting_def
        sample_meeting_def sample_qr_def stored_token_def endTime_def haversine_antipode)
  then have "scanQRAttendance (sample_env 2000000 ''alice'') (sample_system [fenced_meeting])
        (sample_scan ''a0'' (Some (- 8)) (Some (- (199 / 2))))
       = (Success 201 False (MeetingInfo 1),
          (sample_system [fenced_meeting])
            \<lparr>attendances :=
               [\<lparr>meeting = 1, user = 11, att_method = Qr, markedAt = 2000000,
                 att_location = Some \<lparr>lat = - 8, lng = - (199 / 2), accuracy = None\<rparr>\<rparr>]\<rparr>)"
    by (simp add: scanQRAttendance_def scan_existing_def scan_create_def Attendance_create_def
          findOne_attendance_def record_location_def sample_env_def sample_system_def
          sample_scan_def fenced_meeting_def sample_meeting_def)
  with far show ?thesis
    by (simp add: great_circle_antipode haversine_antipode)
qed

section \<open>The validator: writes to the store\<close>

lemma scan_check_not_fresh: "scanQR_check e s req = Inl r \<Longrightarrow> \<not> is_fresh r"
  by (auto simp: scanQR_check_def scan_meeting_def scan_window_def scan_user_def
        scan_geofence_def scan_existing_def Let_def
        split: qr_input.splits id_input.splits option.splits if_splits)

lemma mark_check_not_fresh: "mark_check e s req = Inl r \<Longrightarrow> \<not> is_fresh r"
  by (auto simp: mark_check_def mark_meeting_def mark_user_def mark_existing_def
        split: option.splits if_splits)

lemma check_not_fresh: "check e s sub = Inl r \<Longrightarrow> \<not> is_fresh r"
  by (cases sub)
    (auto simp: check_def map_sum_def dest: scan_check_not_fresh mark_check_not_fresh
      split: sum.splits)

lemma scan_create_cases:
  "(is_fresh (fst (scan_create e s r))
      \<and> snd (scan_create e s r) = s\<lparr>attendances := attendances s @ [r]\<rparr>)
   \<or> (\<not> is_fresh (fst (scan_create e s r)) \<and> snd (scan_create e s r) = s)"
  by (simp add: scan_create_def Attendance_create_def)

lemma mark_create_cases:
  "(is_fresh (fst (mark_create e s req m r))
      \<and> snd (mark_create e s req m r) = s\<lparr>attendances := attendances s @ [r]\<rparr>)
   \<or> (\<not> is_fresh (fst (mark_create e s req m r)) \<and> snd (mark_create e s req m r) = s)"
  by (simp add: mark_create_def Attendance_create_def split: option.splits)

lemma commit_cases:
  "(is_fresh (fst (commit e s p))
      \<and> (\<exists>r. snd (commit e s p) = s\<lparr>attendances := attendances s @ [r]\<rparr>))
   \<or> (\<not> is_fresh (fst (commit e s p)) \<and> snd (commit e s p) = s)"
proof (cases p)
  case (ScanInsert r)
  with scan_create_cases [of e s r] show ?thesis by (auto simp: commit_def)
next
  case (MarkInsert req m r)
  with mark_create_cases [of e s req m r] show ?thesis by (auto simp: commit_def)
qed

text \<open>
  Claim C9. A call of either handler, alone or overlapping with others, leaves the state as
  it was, or appends one attendance record and changes nothing else; it appends exactly when
  its answer is the fresh success (201, \<^verbatim>\<open>alreadyAttended: false\<close>). So every failure, the
  answer for a repeated submission and a rejected promise come with no write, and no call
  writes a meeting or an existing record.
\<close>

theorem validator_writes_once:
  "((is_fresh (fst (scanQRAttendance e s req))
       \<and> (\<exists>r. snd (scanQRAttendance e s req) = s\<lparr>attendances := attendances s @ [r]\<rparr>))
     \<or> (\<not> is_fresh (fst (scanQRAttendance e s req)) \<and> snd (scanQRAttendance e s req) = s))
   \<and> ((is_fresh (fst (markAttendance e s mreq))
       \<and> (\<exists>r. snd (markAttendance e s mreq) = s\<lparr>attendances := attendances s @ [r]\<rparr>))
     \<or> (\<not> is_fresh (fst (markAttendance e s mreq)) \<and> snd (markAttendance e s mreq) = s))
   \<and> ((is_fresh (fst (submit_at e k s sub))
       \<and> (\<exists>r. snd (submit_at e k s sub) = s\<lparr>attendances := attendances s @ [r]\<rparr>))
     \<or> (\<not> is_fresh (fst (submit_at e k s sub)) \<and> snd (submit_at e k s sub) = s))"
proof (intro conjI)
  show "(is_fresh (fst (scanQRAttendance e s req))
       \<and> (\<exists>r. snd (scanQRAttendance e s req) = s\<lparr>attendances := attendances s @ [r]\<rparr>))
     \<or> (\<not> is_fresh (fst (scanQRAttendance e s req)) \<and> snd (scanQRAttendance e s req) = s)"
  proof (cases "scanQR_check e s req")
    case (Inl r)
    with scan_check_not_fresh [OF Inl] show ?thesis by (simp add: scanQRAttendance_def)
  next
    case (Inr r)
    with scan_create_cases [of e s r] show ?thesis by (auto simp: scanQRAttendance_def)
  qed
  show "(is_fresh (fst (markAttendance e s mreq))
       \<and> (\<exists>r. snd (markAttendance e s mreq) = s\<lparr>attendances := attendances s @ [r]\<rparr>))
     \<or> (\<not> is_fresh (fst (markAttendance e s mreq)) \<and> snd (markAttendance e s mreq) = s)"
  proof (cases "mark_check e s mreq")
    case (Inl r)
    with mark_check_not_fresh [OF Inl] show ?thesis by (simp add: markAttendance_def)
  next
    case (Inr p)
    with mark_create_cases [of e s mreq "fst p" "snd p"] show ?thesis
      by (auto simp: markAttendance_def)
  qed
  show "(is_fresh (fst (submit_at e k s sub))
       \<and> (\<exists>r. snd (submit_at e k s sub) = s\<lparr>attendances := attendances s @ [r]\<rparr>))
     \<or> (\<not> is_fresh (fst (submit_at e k s sub)) \<and> snd (submit_at e k s sub) = s)"
  proof (cases "check e (s\<lparr>attendances := take k (attendances s)\<rparr>) sub")
    case (Inl r)
    with check_not_fresh [OF Inl] show ?thesis by (simp add: submit_at_def)
  next
    case (Inr p)
    with commit_cases [of e s p] show ?thesis by (auto simp: submit_at_def)
  qed
qed


theorem validator_writes_once_witness:
  "scanQRAttendance (sample_env 2000000 ''alice'')
       (sample_system [sample_meeting\<lparr>qrData := sample_qr ''a0''\<rparr>])
       (sample_scan ''a0'' None None)
     = (Success 201 False (MeetingInfo 1),
        (sample_system [sample_meeting\<lparr>qrData := sample_qr ''a0''\<rparr>])
          \<lparr>attendances := [\<lparr>meeting = 1, user = 11, att_method = Qr, markedAt = 2000000,
                             att_location = None\<rparr>]\<rparr>)
   \<and> scanQRAttendance (sample_env 2000000 ''carol'')
       (sample_system [sample_meeting\<lparr>qrData := sample_qr ''a0''\<rparr>])
       (sample_scan ''a0'' None None)
     = (Failure 403 Forbidden UserNotFound,
        sample_system [sample_meeting\<lparr>qrData := sample_qr ''a0''\<rparr>])"
  using validator_writes_once [of "sample_env 2000000 ''alice''"
      "sample_system [sample_meeting\<lparr>qrData := sample_qr ''a0''\<rparr>]"
      "sample_scan ''a0'' None None" "sample_mark ''x''" 0 "ScanQR (sample_scan ''a0'' None None)"]
  by (simp add: scanQRAttendance_def scanQR_check_def scan_stages sample_env_def
        sample_system_def sample_meeting_def sample_scan_def sample_qr_def stored_token_def
        endTime_def findOne_attendance_def record_location_def)

section \<open>Exactly once\<close>

lemma has_record_iff: "has_record E S atts \<longleftrightarrow> (\<exists>a \<in> set atts. same_pair E S a)"
  by (auto simp: has_record_def findOne_attendance_def find_None_iff)

lemma has_record_take: "has_record E S (take k atts) \<Longrightarrow> has_record E S atts"
  by (auto simp: has_record_iff dest: in_set_takeD)

lemma scan_existing_snapshot:
  assumes "scan_existing e (s\<lparr>attendances := []\<rparr>) m u req = Inr r"
  shows "scan_existing e (s\<lparr>attendances := A\<rparr>) m u req
           = (if has_record (meeting r) (user r) A
              then Inl (Success 200 True (MeetingInfo (meeting r))) else Inr r)"
  using assms
  by (auto simp: scan_existing_def has_record_def findOne_attendance_def split: if_splits)

lemma scan_geofence_snapshot:
  assumes "scan_geofence e (s\<lparr>attendances := []\<rparr>) m u req = Inr r"
  shows "scan_geofence e (s\<lparr>attendances := A\<rparr>) m u req
           = (if has_record (meeting r) (user r) A
              then Inl (Success 200 True (MeetingInfo (meeting r))) else Inr r)"
  using assms
  by (auto simp: scan_geofence_def Let_def scan_existing_snapshot split: if_splits)

lemma scan_user_snapshot:
  assumes "scan_user e (s\<lparr>attendances := []\<rparr>) m req = Inr r"
  shows "scan_user e (s\<lparr>attendances := A\<rparr>) m req
           = (if has_record (meeting r) (user r) A
              then Inl (Success 200 True (MeetingInfo (meeting r))) else Inr r)"
  using assms
  by (auto simp: scan_user_def scan_geofence_snapshot split: if_splits option.splits)

lemma scan_meeting_snapshot:
  assumes "scan_meeting e (s\<lparr>attendances := []\<rparr>) m tok req = Inr r"
  shows "scan_meeting e (s\<lparr>attendances := A\<rparr>) m tok req
           = (if has_record (meeting r) (user r) A
              then Inl (Success 200 True (MeetingInfo (meeting r))) else Inr r)"
  using assms
  by (auto simp: scan_meeting_def scan_window_def scan_user_snapshot split: if_splits)

lemma scanQR_check_snapshot:
  assumes "scanQR_check e (s\<lparr>attendances := []\<rparr>) req = Inr r"
  shows "scanQR_check e (s\<lparr>attendances := A\<rparr>) req
           = (if has_record (meeting r) (user r) A
              then Inl (Success 200 True (MeetingInfo (meeting r))) else Inr r)"
  using assms
  by (auto simp: scanQR_check_def scan_meeting_snapshot
        split: qr_input.splits id_input.splits if_splits option.splits)

lemma mark_existing_snapshot:
  assumes "mark_existing e (s\<lparr>attendances := []\<rparr>) m u req = Inr p"
  shows "mark_existing e (s\<lparr>attendances := A\<rparr>) m u req
           = (if has_record (meeting (snd p)) (user (snd p)) A
              then Inl (Success 200 True (MeetingLink (meetingLink (fst p)))) else Inr p)"
  using assms
  by (auto simp: mark_existing_def has_record_def findOne_attendance_def split: if_splits)

lemma mark_user_snapshot:
  assumes "mark_user e (s\<lparr>attendances := []\<rparr>) m req = Inr p"
  shows "mark_user e (s\<lparr>attendances := A\<rparr>) m req
           = (if has_record (meeting (snd p)) (user (snd p)) A
              then Inl (Success 200 True (MeetingLink (meetingLink (fst p)))) else Inr p)"
  using assms
  by (auto simp: mark_user_def mark_existing_snapshot split: if_splits option.splits)

lemma mark_check_snapshot:
  assumes "mark_check e (s\<lparr>attendances := []\<rparr>) req = Inr p"
  shows "mark_check e (s\<lparr>attendances := A\<rparr>) req
           = (if has_record (meeting (snd p)) (user (snd p)) A
              then Inl (Success 200 True (MeetingLink (meetingLink (fst p)))) else Inr p)"
  using assms
  by (auto simp: mark_check_def mark_meeting_def mark_user_snapshot
        split: if_splits option.splits)

lemma commit_valid:
  assumes "store_ok e" and "same_pair E S (pending_record p)"
  shows "(has_record E S (attendances s) \<and> is_already (fst (commit e s p))
            \<and> snd (commit e s p) = s)
       \<or> (\<not> has_record E S (attendances s) \<and> is_fresh (fst (commit e s p))
            \<and> snd (commit e s p) = s\<lparr>attendances := attendances s @ [pending_record p]\<rparr>)"
proof -
  from assms(2) have eq: "meeting (pending_record p) = E" "user (pending_record p) = S"
    by (simp_all add: same_pair_def)
  show ?thesis
  proof (cases p)
    case (ScanInsert r)
    with assms eq show ?thesis
      by (auto simp: commit_def scan_create_def Attendance_create_def store_ok_def
            has_record_def)
  next
    case (MarkInsert req m r)
    with assms eq show ?thesis
      by (auto simp: commit_def mark_create_def Attendance_create_def store_ok_def
            has_record_def split: option.splits)
  qed
qed

lemma expected_record_pair [simp]:
  "meeting (expected_record e sub E S) = E" "user (expected_record e sub E S) = S"
  by (cases sub; simp)+

lemma check_snapshot:
  assumes "valid_for e s sub E S"
  shows "(has_record E S A \<and> (\<exists>r. check e (s\<lparr>attendances := A\<rparr>) sub = Inl r \<and> is_already r))
       \<or> (\<not> has_record E S A
            \<and> (\<exists>p. check e (s\<lparr>attendances := A\<rparr>) sub = Inr p
                  \<and> pending_record p = expected_record e sub E S))"
proof (cases sub)
  case (ScanQR req)
  with assms obtain r where r: "scanQR_check e (s\<lparr>attendances := []\<rparr>) req = Inr r"
    and p: "r = expected_record e sub E S"
    by (cases "scanQR_check e (s\<lparr>attendances := []\<rparr>) req")
      (simp_all add: valid_for_def check_def)
  from p have k: "meeting r = E" "user r = S" by simp_all
  have c: "check e (s\<lparr>attendances := A\<rparr>) sub
      = (if has_record E S A then Inl (Success 200 True (MeetingInfo E)) else Inr (ScanInsert r))"
    using scanQR_check_snapshot [OF r, of A] k ScanQR by (simp add: check_def)
  show ?thesis
  proof (cases "has_record E S A")
    case True
    with c show ?thesis by simp
  next
    case False
    with c p show ?thesis by simp
  qed
next
  case (MarkLink req)
  with assms obtain q where q: "mark_check e (s\<lparr>attendances := []\<rparr>) req = Inr q"
    and p: "snd q = expected_record e sub E S"
    by (cases "mark_check e (s\<lparr>attendances := []\<rparr>) req")
      (simp_all add: valid_for_def check_def)
  from p have k: "meeting (snd q) = E" "user (snd q) = S" by simp_all
  have c: "check e (s\<lparr>attendances := A\<rparr>) sub
      = (if has_record E S A then Inl (Success 200 True (MeetingLink (meetingLink (fst q))))
         else Inr (MarkInsert req (fst q) (snd q)))"
    using mark_check_snapshot [OF q, of A] k MarkLink by (simp add: check_def)
  show ?thesis
  proof (cases "has_record E S A")
    case True
    with c show ?thesis by simp
  next
    case False
    with c p show ?thesis by simp
  qed
qed

lemma submit_valid:
  assumes "valid_for e s sub E S" and "store_ok e"
  shows "(has_record E S (attendances s) \<and> is_already (fst (submit_at e k s sub))
            \<and> snd (submit_at e k s sub) = s)
       \<or> (\<not> has_record E S (attendances s) \<and> is_fresh (fst (submit_at e k s sub))
            \<and> snd (submit_at e k s sub)
                = s\<lparr>attendances := attendances s @ [expected_record e sub E S]\<rparr>)"
proof -
  let ?A = "take k (attendances s)"
  from check_snapshot [OF assms(1), of ?A] show ?thesis
  proof
    assume "has_record E S ?A
      \<and> (\<exists>r. check e (s\<lparr>attendances := ?A\<rparr>) sub = Inl r \<and> is_already r)"
    then obtain r where h: "has_record E S ?A"
      and c: "check e (s\<lparr>attendances := ?A\<rparr>) sub = Inl r" and a: "is_already r"
      by blast
    from h have "has_record E S (attendances s)" by (rule has_record_take)
    moreover from c have "submit_at e k s sub = (r, s)" by (simp add: submit_at_def)
    ultimately show ?thesis using a by simp
  next
    assume "\<not> has_record E S ?A
      \<and> (\<exists>p. check e (s\<lparr>attendances := ?A\<rparr>) sub = Inr p
            \<and> pending_record p = expected_record e sub E S)"
    then obtain p where c: "check e (s\<lparr>attendances := ?A\<rparr>) sub = Inr p"
      and pr: "pending_record p = expected_record e sub E S"
      by blast
    have sp: "same_pair E S (pending_record p)"
      by (simp add: pr same_pair_def)
    have eq: "submit_at e k s sub = commit e s p"
      using c by (simp add: submit_at_def)
    from commit_valid [OF assms(2) sp, of s] show ?thesis
      unfolding eq pr by blast
  qed
qed

lemma valid_for_attendances [simp]:
  "valid_for e (s\<lparr>attendances := A\<rparr>) sub E S = valid_for e s sub E S"
  by (simp add: valid_for_def)

lemma run_Cons:
  "run s (x # xs)
     = (fst (submit_at (fst x) (fst (snd x)) s (snd (snd x)))
          # fst (run (snd (submit_at (fst x) (fst (snd x)) s (snd (snd x)))) xs),
        snd (run (snd (submit_at (fst x) (fst (snd x)) s (snd (snd x)))) xs))"
  by (simp add: Let_def)

lemma run_recorded:
  assumes "\<forall>x \<in> set subs. valid_for (fst x) s (snd (snd x)) E S \<and> store_ok (fst x)"
    and "has_record E S (attendances s)"
  shows "list_all is_already (fst (run s subs)) \<and> snd (run s subs) = s"
  using assms
proof (induction subs)
  case Nil
  then show ?case by simp
next
  case (Cons x xs)
  from Cons.prems have v: "valid_for (fst x) s (snd (snd x)) E S" and ok: "store_ok (fst x)"
    by simp_all
  from submit_valid [OF v ok, of "fst (snd x)"] Cons.prems(2)
  have a: "is_already (fst (submit_at (fst x) (fst (snd x)) s (snd (snd x))))"
    and b: "snd (submit_at (fst x) (fst (snd x)) s (snd (snd x))) = s"
    by blast+
  from Cons.IH Cons.prems have "list_all is_already (fst (run s xs)) \<and> snd (run s xs) = s"
    by simp
  with a b show ?case by (simp only: run_Cons) simp
qed

lemma run_first:
  assumes "\<forall>x \<in> set subs. valid_for (fst x) s (snd (snd x)) E S \<and> store_ok (fst x)"
    and "\<not> has_record E S (attendances s)" and "subs \<noteq> []"
  shows "is_fresh (hd (fst (run s subs))) \<and> list_all is_already (tl (fst (run s subs)))
       \<and> snd (run s subs)
           = s\<lparr>attendances := attendances s
                 @ [expected_record (fst (hd subs)) (snd (snd (hd subs))) E S]\<rparr>"
proof (cases subs)
  case Nil
  with assms(3) show ?thesis by simp
next
  case (Cons x xs)
  with assms(1) have v: "valid_for (fst x) s (snd (snd x)) E S" and ok: "store_ok (fst x)"
    by simp_all
  let ?r = "expected_record (fst x) (snd (snd x)) E S"
  from submit_valid [OF v ok, of "fst (snd x)"] assms(2)
  have f: "is_fresh (fst (submit_at (fst x) (fst (snd x)) s (snd (snd x))))"
    and st: "snd (submit_at (fst x) (fst (snd x)) s (snd (snd x)))
               = s\<lparr>attendances := attendances s @ [?r]\<rparr>"
    by blast+
  let ?s1 = "s\<lparr>attendances := attendances s @ [?r]\<rparr>"
  have rec: "has_record E S (attendances ?s1)"
    by (simp add: has_record_iff same_pair_def)
  have "\<forall>y \<in> set xs. valid_for (fst y) ?s1 (snd (snd y)) E S \<and> store_ok (fst y)"
    using assms(1) Cons by simp
  from run_recorded [OF this rec]
  have "list_all is_already (fst (run ?s1 xs))" and "snd (run ?s1 xs) = ?s1"
    by simp_all
  with f st Cons show ?thesis
    by (simp only: run_Cons) simp
qed

text \<open>An eligible submission passes every check before the duplicate pre-check.\<close>

lemma eligible_scan_valid:
  assumes "eligible_scan e s req E S" and "store_ok e"
  shows "scanQR_check e (s\<lparr>attendances := []\<rparr>) req = Inr (expected_record e (ScanQR req) E S)"
proof -
  from assms(1) obtain tok m where q: "req_qrData req = QrObject (GoodId E) tok" "tok \<noteq> []"
    and f: "findById E (meetings s) = Some m"
    and m: "stored_token m = Some tok" "mtype m = Offline"
      "dateTime m \<le> req_now e" "req_now e < endTime m"
    and u: "users s (uid e) = Some S" "participation m = Selected \<longrightarrow> S \<in> set (participants m)"
    and g: "enabled (geofencing m) \<longrightarrow>
              req_lat req \<noteq> None \<and> req_lng req \<noteq> None
              \<and> \<not> js_gt (haversine (math e) (the (req_lat req)) (the (req_lng req))
                           (center_lat (geofencing m)) (center_lng (geofencing m)))
                        (radius (geofencing m))"
    by (auto simp: eligible_scan_def split: qr_input.splits option.splits)
  from f have id: "m_id m = E" by (simp add: findById_in_set)
  from assms(2) have ok: "\<not> dbThrows e FindMeeting" "\<not> dbThrows e FindUser"
      "\<not> dbThrows e FindAttendance"
    by (simp_all add: store_ok_def)
  have "scan_existing e (s\<lparr>attendances := []\<rparr>) m S req
          = Inr (expected_record e (ScanQR req) E S)"
    using ok id by (simp add: scan_existing_def findOne_attendance_def)
  moreover have "scan_geofence e (s\<lparr>attendances := []\<rparr>) m S req
          = scan_existing e (s\<lparr>attendances := []\<rparr>) m S req"
    using g by (auto simp: scan_geofence_def Let_def)
  moreover have "scanQR_check e (s\<lparr>attendances := []\<rparr>) req
          = scan_geofence e (s\<lparr>attendances := []\<rparr>) m S req"
    using q f m u ok
    by (auto simp: scanQR_check_def scan_meeting_def scan_window_def scan_user_def isAllowed_def)
  ultimately show ?thesis by simp
qed

lemma eligible_mark_valid:
  assumes "eligible_mark e s req E S" and "store_ok e"
  shows "\<exists>m. mark_check e (s\<lparr>attendances := []\<rparr>) req
           = Inr (m, expected_record e (MarkLink req) E S)"
proof -
  from assms(1) obtain m where t: "param_token req \<noteq> []" "trim (param_token req) \<noteq> []"
    and f: "findOne_by_token (param_token req) (meetings s) = Some m"
    and m: "m_id m = E" "mtype m = Online" "dateTime m \<le> req_now e" "req_now e < endTime m"
    and u: "users s (uid e) = Some S" "participation m = Selected \<longrightarrow> S \<in> set (participants m)"
    by (auto simp: eligible_mark_def split: option.splits)
  from assms(2) have ok: "\<not> dbThrows e FindMeeting" "\<not> dbThrows e FindUser"
      "\<not> dbThrows e FindAttendance"
    by (simp_all add: store_ok_def)
  have "mark_existing e (s\<lparr>attendances := []\<rparr>) m S req
          = Inr (m, expected_record e (MarkLink req) E S)"
    using ok m by (simp add: mark_existing_def findOne_attendance_def)
  moreover have "mark_check e (s\<lparr>attendances := []\<rparr>) req
          = mark_existing e (s\<lparr>attendances := []\<rparr>) m S req"
    using t f m u ok
    by (auto simp: mark_check_def mark_meeting_def mark_user_def isAllowed_def)
  ultimately show ?thesis by simp
qed

lemma eligible_valid:
  assumes "eligible e s sub E S" and "store_ok e"
  shows "valid_for e s sub E S"
proof (cases sub)
  case (ScanQR req)
  with assms eligible_scan_valid [of e s req E S] show ?thesis
    by (simp add: valid_for_def check_def)
next
  case (MarkLink req)
  with assms eligible_mark_valid [of e s req E S] show ?thesis
    by (auto simp: valid_for_def check_def)
qed

lemma unique_count:
  "unique_index atts \<Longrightarrow>
     length (filter (same_pair E S) atts) = (if has_record E S atts then 1 else 0)"
proof (induction atts)
  case Nil
  then show ?case by (simp add: has_record_iff)
next
  case (Cons a atts)
  then have u: "unique_index atts" and n: "(meeting a, user a) \<notin> set (map (\<lambda>a. (meeting a, user a)) atts)"
    by (simp_all add: unique_index_def)
  show ?case
  proof (cases "same_pair E S a")
    case True
    have "\<not> has_record E S atts"
    proof
      assume "has_record E S atts"
      then obtain b where "b \<in> set atts" and "same_pair E S b"
        by (auto simp: has_record_iff)
      with True have "(meeting a, user a) = (meeting b, user b)" and "b \<in> set atts"
        by (simp_all add: same_pair_def)
      then have "(meeting a, user a) \<in> set (map (\<lambda>a. (meeting a, user a)) atts)"
        by (metis (mono_tags, lifting) image_eqI list.set_map)
      with n show False by simp
    qed
    with True Cons.IH [OF u] show ?thesis by (simp add: has_record_iff)
  next
    case False
    with Cons.IH [OF u] show ?thesis by (simp add: has_record_iff)
  qed
qed

lemma unique_append:
  "unique_index atts \<Longrightarrow> \<not> has_record (meeting r) (user r) atts \<Longrightarrow> unique_index (atts @ [r])"
  by (force simp: unique_index_def has_record_iff same_pair_def)

lemma commit_unique:
  assumes "unique_index (attendances s)"
  shows "unique_index (attendances (snd (commit e s p)))"
proof (cases p)
  case (ScanInsert r)
  with assms unique_append [of "attendances s" r] show ?thesis
    by (simp add: commit_def scan_create_def Attendance_create_def has_record_def)
next
  case (MarkInsert req m r)
  with assms unique_append [of "attendances s" r] show ?thesis
    by (simp add: commit_def mark_create_def Attendance_create_def has_record_def
          split: option.splits)
qed

lemma submit_unique:
  "unique_index (attendances s) \<Longrightarrow> unique_index (attendances (snd (submit_at e k s sub)))"
  by (cases "check e (s\<lparr>attendances := take k (attendances s)\<rparr>) sub")
    (simp_all add: submit_at_def commit_unique)

lemma run_unique:
  "unique_index (attendances s) \<Longrightarrow> unique_index (attendances (snd (run s subs)))"
proof (induction subs arbitrary: s)
  case Nil
  then show ?case by simp
next
  case (Cons x xs)
  then show ?case by (simp only: run_Cons snd_conv) (simp add: submit_unique)
qed

text \<open>
  Claim C1. The attendance collection never holds two records of one (meeting, user) pair:
  whatever the submissions and however they overlap, the unique index holds after them. And
  for submissions that all are eligible for the event \<open>E\<close> and the subject \<open>S\<close>, the user of
  the authenticated uid, in any number and with any overlap (each pre-check may have read any
  earlier state of the collection, so two of them may both have passed it), exactly one
  record of the pair exists afterwards. When none existed before, it is the record of the
  first submission, appended to the collection; the first insert answers the fresh success
  and every other submission answers success with the already-recorded indicator. When the
  record existed before, all of them answer so and nothing is written.
\<close>

theorem exactly_once:
  assumes "unique_index (attendances s)"
  shows "unique_index (attendances (snd (run s subs)))
       \<and> ((\<forall>x \<in> set subs. eligible (fst x) s (snd (snd x)) E S \<and> store_ok (fst x))
            \<and> subs \<noteq> []
          \<longrightarrow> length (filter (same_pair E S) (attendances (snd (run s subs)))) = 1
              \<and> length (fst (run s subs)) = length subs
              \<and> (\<not> has_record E S (attendances s)
                   \<longrightarrow> is_fresh (hd (fst (run s subs)))
                       \<and> list_all is_already (tl (fst (run s subs)))
                       \<and> snd (run s subs)
                           = s\<lparr>attendances := attendances s
                                 @ [expected_record (fst (hd subs)) (snd (snd (hd subs))) E S]\<rparr>)
              \<and> (has_record E S (attendances s)
                   \<longrightarrow> list_all is_already (fst (run s subs))
                       \<and> snd (run s subs) = s))"
proof (intro conjI impI)
  show u: "unique_index (attendances (snd (run s subs)))"
    using assms by (rule run_unique)
  show "length (fst (run s subs)) = length subs"
    by (induction subs arbitrary: s) (simp_all add: Let_def)
next
  assume "(\<forall>x \<in> set subs. eligible (fst x) s (snd (snd x)) E S \<and> store_ok (fst x))
            \<and> subs \<noteq> []"
  then have h: "\<forall>x \<in> set subs. valid_for (fst x) s (snd (snd x)) E S \<and> store_ok (fst x)"
    and ne: "subs \<noteq> []"
    by (simp_all add: eligible_valid)
  have "has_record E S (attendances (snd (run s subs)))"
  proof (cases "has_record E S (attendances s)")
    case True
    with run_recorded [OF h] show ?thesis by simp
  next
    case False
    from run_first [OF h False ne] show ?thesis
      by (simp add: has_record_iff same_pair_def)
  qed
  with unique_count [OF run_unique [OF assms, of subs], of E S]
  show "length (filter (same_pair E S) (attendances (snd (run s subs)))) = 1"
    by simp
next
  assume "(\<forall>x \<in> set subs. eligible (fst x) s (snd (snd x)) E S \<and> store_ok (fst x))
            \<and> subs \<noteq> []"
    and n: "\<not> has_record E S (attendances s)"
  then have h: "\<forall>x \<in> set subs. valid_for (fst x) s (snd (snd x)) E S \<and> store_ok (fst x)"
    and ne: "subs \<noteq> []"
    by (simp_all add: eligible_valid)
  from run_first [OF h n ne]
  show "is_fresh (hd (fst (run s subs)))" and "list_all is_already (tl (fst (run s subs)))"
    and "snd (run s subs)
           = s\<lparr>attendances := attendances s
                 @ [expected_record (fst (hd subs)) (snd (snd (hd subs))) E S]\<rparr>"
    by blast+
next
  assume "(\<forall>x \<in> set subs. eligible (fst x) s (snd (snd x)) E S \<and> store_ok (fst x))
            \<and> subs \<noteq> []"
    and y: "has_record E S (attendances s)"
  then have h: "\<forall>x \<in> set subs. valid_for (fst x) s (snd (snd x)) E S \<and> store_ok (fst x)"
    by (simp add: eligible_valid)
  from run_recorded [OF h y]
  show "list_all is_already (fst (run s subs))" and "snd (run s subs) = s"
    by blast+
qed

lemma sample_env_fields [simp]:
  "dbThrows (sample_env t u) op = False" "req_now (sample_env t u) = t"
  "uid (sample_env t u) = u" "math (sample_env t u) = ieee"
  by (simp_all add: sample_env_def)

theorem exactly_once_witness:
  "run (sample_system [sample_meeting\<lparr>qrData := sample_qr ''a0''\<rparr>, online_meeting]) two_scans
     = ([Success 201 False (MeetingInfo 1), Success 200 True NoData],
        (sample_system [sample_meeting\<lparr>qrData := sample_qr ''a0''\<rparr>, online_meeting])
          \<lparr>attendances := [\<lparr>meeting = 1, user = 11, att_method = Qr, markedAt = 2000000,
                             att_location = None\<rparr>]\<rparr>)
   \<and> run (sample_system [sample_meeting\<lparr>qrData := sample_qr ''a0''\<rparr>, online_meeting]) two_marks
     = ([Success 201 False (MeetingLink ''https://meet.example/abc''),
         Success 200 True (MeetingLink ''https://meet.example/abc'')],
        (sample_system [sample_meeting\<lparr>qrData := sample_qr ''a0''\<rparr>, online_meeting])
          \<lparr>attendances := [\<lparr>meeting = 3, user = 12, att_method = Link, markedAt = 2000000,
                             att_location = None\<rparr>]\<rparr>)"
proof -
  let ?s = "sample_system [sample_meeting\<lparr>qrData := sample_qr ''a0''\<rparr>, online_meeting]"
  have u: "unique_index (attendances ?s)"
    by (simp add: sample_system_def unique_index_def)
  have a: "attendances ?s = []" "\<not> has_record E S (attendances ?s)" for E S
    by (simp_all add: sample_system_def has_record_def findOne_attendance_def)
  have v1: "\<forall>x \<in> set two_scans. eligible (fst x) ?s (snd (snd x)) 1 11 \<and> store_ok (fst x)"
    by (simp add: two_scans_def eligible_scan_def store_ok_def sample_scan_def
          sample_system_def sample_meeting_def online_meeting_def sample_qr_def
          stored_token_def endTime_def)
  have v2: "\<forall>x \<in> set two_marks. eligible (fst x) ?s (snd (snd x)) 3 12 \<and> store_ok (fst x)"
    by (simp add: two_marks_def eligible_mark_def store_ok_def sample_mark_def
          sample_system_def sample_meeting_def online_meeting_def findOne_by_token_def
          trim_def js_whitespace_def code_units_def endTime_def)
  have n: "two_scans \<noteq> []" "two_marks \<noteq> []"
    by (simp_all add: two_scans_def two_marks_def)
  from exactly_once [OF u, of two_scans 1 11] v1 n(1) a(2)
  have f1: "is_fresh (hd (fst (run ?s two_scans)))"
    and l1: "list_all is_already (tl (fst (run ?s two_scans)))"
    and s1: "snd (run ?s two_scans)
       = ?s\<lparr>attendances := attendances ?s
            @ [expected_record (fst (hd two_scans)) (snd (snd (hd two_scans))) 1 11]\<rparr>"
    by blast+
  from exactly_once [OF u, of two_marks 3 12] v2 n(2) a(2)
  have s2: "snd (run ?s two_marks)
       = ?s\<lparr>attendances := attendances ?s
            @ [expected_record (fst (hd two_marks)) (snd (snd (hd two_marks))) 3 12]\<rparr>"
    by blast
  have r1: "fst (run ?s two_scans) = [Success 201 False (MeetingInfo 1), Success 200 True NoData]"
    by (simp add: two_scans_def Let_def submit_at_def check_def commit_def a(1)
          scanQR_check_def scan_stages sample_scan_def sample_system_def sample_meeting_def
          online_meeting_def sample_qr_def stored_token_def endTime_def findOne_attendance_def
          record_location_def same_pair_def)
  have r2: "fst (run ?s two_marks)
      = [Success 201 False (MeetingLink ''https://meet.example/abc''),
         Success 200 True (MeetingLink ''https://meet.example/abc'')]"
    by (simp add: two_marks_def Let_def submit_at_def check_def commit_def a(1)
          mark_check_def mark_stages sample_mark_def sample_system_def sample_meeting_def
          online_meeting_def findOne_by_token_def trim_def js_whitespace_def code_units_def
          endTime_def findOne_attendance_def record_location_def same_pair_def isAllowed_def)
  have e1: "expected_record (fst (hd two_scans)) (snd (snd (hd two_scans))) 1 11
      = \<lparr>meeting = 1, user = 11, att_method = Qr, markedAt = 2000000, att_location = None\<rparr>"
    by (simp add: two_scans_def sample_scan_def record_location_def)
  have e2: "expected_record (fst (hd two_marks)) (snd (snd (hd two_marks))) 3 12
      = \<lparr>meeting = 3, user = 12, att_method = Link, markedAt = 2000000, att_location = None\<rparr>"
    by (simp add: two_marks_def sample_mark_def record_location_def)
  from r1 s1 e1 a(1) have "run ?s two_scans
     = ([Success 201 False (MeetingInfo 1), Success 200 True NoData],
        ?s\<lparr>attendances := [\<lparr>meeting = 1, user = 11, att_method = Qr, markedAt = 2000000,
                             att_location = None\<rparr>]\<rparr>)"
    by (simp add: prod_eq_iff)
  moreover from r2 s2 e2 a(1) have "run ?s two_marks
     = ([Success 201 False (MeetingLink ''https://meet.example/abc''),
         Success 200 True (MeetingLink ''https://meet.example/abc'')],
        ?s\<lparr>attendances := [\<lparr>meeting = 3, user = 12, att_method = Link, markedAt = 2000000,
                             att_location = None\<rparr>]\<rparr>)"
    by (simp add: prod_eq_iff)
  ultimately show ?thesis by simp
qed

end
